(* ===== verification/Prelude.thy ===== *)
theory Prelude
  imports Complex_Main
begin

text \<open>
  Shared vocabulary of the development: the JavaScript string and number helpers the
  sources call (decimal \<open>toString\<close> of a non-negative integer, the \<open>\d\<close> digit
  class), the collections of rules the component theories feed to the simplifier, and the
  generic lemmas on decimal strings that the one-time-code proofs rest on. JavaScript
  strings are modelled as \<open>string\<close> (lists of \<open>char\<close>); every input the sources
  compare or measure here is ASCII, where a UTF-16 code unit and a \<open>char\<close> coincide.
\<close>

named_theorems str_simps "evaluation rules of the string helpers"
named_theorems auth_simps "unfolding rules of the login page handlers"

type_synonym js_string = string

subsection \<open>Decimal digits\<close>

text \<open>The regular-expression class \<open>\d\<close> (without the \<open>u\<close> flag: ASCII digits only).\<close>

definition is_digit :: "char \<Rightarrow> bool" where
  "is_digit c \<longleftrightarrow> 48 \<le> (of_char c :: nat) \<and> (of_char c :: nat) \<le> 57"

definition digit_char :: "nat \<Rightarrow> char" where
  "digit_char d = ''0123456789'' ! d"

text \<open>
  \<open>Number.prototype.toString()\<close> on a non-negative integer below \<open>10^21\<close>: its
  decimal digits, most significant first, without leading zeros.
\<close>

fun nat_to_string :: "nat \<Rightarrow> js_string" where
  "nat_to_string n =
     (if n < 10 then [digit_char n] else nat_to_string (n div 10) @ [digit_char (n mod 10)])"

declare nat_to_string.simps [simp del]

text \<open>The value a string of decimal digits denotes (its inverse, for the round trip).\<close>

definition digits_value :: "js_string \<Rightarrow> nat" where
  "digits_value s = foldl (\<lambda>n c. 10 * n + (of_char c - 48)) 0 s"

subsection \<open>JavaScript string methods on ASCII text\<close>

text \<open>White space of \<open>String.prototype.trim\<close> and of the class \<open>\s\<close> (ASCII part).\<close>

definition is_js_space :: "char \<Rightarrow> bool" where
  "is_js_space c \<longleftrightarrow> (of_char c :: nat) \<in> {9, 10, 11, 12, 13, 32}"

definition js_trim :: "js_string \<Rightarrow> js_string" where
  "js_trim s = rev (dropWhile is_js_space (rev (dropWhile is_js_space s)))"

definition js_lower_char :: "char \<Rightarrow> char" where
  "js_lower_char c =
     (if 65 \<le> (of_char c :: nat) \<and> (of_char c :: nat) \<le> 90 then char_of ((of_char c :: nat) + 32) else c)"

definition js_toLowerCase :: "js_string \<Rightarrow> js_string" where
  "js_toLowerCase s = map js_lower_char s"

text \<open>\<open>s.replace(/\s+/g, "-")\<close>: every maximal run of white space becomes one dash.\<close>

function replace_ws_runs :: "js_string \<Rightarrow> js_string" where
  "replace_ws_runs [] = []"
| "replace_ws_runs (c # cs) =
     (if is_js_space c then CHR ''-'' # replace_ws_runs (dropWhile is_js_space cs)
      else c # replace_ws_runs cs)"
  by pat_completeness auto
termination
  by (relation "measure length") (auto simp: le_imp_less_Suc length_dropWhile_le)

text \<open>\<open>s.slice(-n)\<close> for \<open>n > 0\<close>: the last \<open>n\<close> characters, or all of a shorter string.\<close>

definition js_slice_last :: "nat \<Rightarrow> js_string \<Rightarrow> js_string" where
  "js_slice_last n s = drop (length s - n) s"

text \<open>\<open>s.split(d)\<close> for a one-character separator: the pieces between the separators, empty ones included.\<close>

fun split_on :: "char \<Rightarrow> js_string \<Rightarrow> js_string list" where
  "split_on d [] = [[]]"
| "split_on d (c # cs) =
     (if c = d then [] # split_on d cs
      else (case split_on d cs of w # ws \<Rightarrow> (c # w) # ws | [] \<Rightarrow> [[c]]))"

subsection \<open>Lemmas on digits\<close>

lemma of_char_digit_char [simp]: "d < 10 \<Longrightarrow> (of_char (digit_char d) :: nat) = 48 + d"
proof -
  assume "d < 10"
  then have "d \<in> set [0..<10]" by simp
  then show ?thesis by (auto simp: digit_char_def upt_rec)
qed

lemma is_digit_digit_char [simp]: "d < 10 \<Longrightarrow> is_digit (digit_char d)"
  by (simp add: is_digit_def)

lemma digit_char_inj [simp]:
  "d < 10 \<Longrightarrow> e < 10 \<Longrightarrow> digit_char d = digit_char e \<longleftrightarrow> d = e"
  by (metis add_left_cancel of_char_digit_char)

lemma digit_char_zero_iff [simp]: "d < 10 \<Longrightarrow> digit_char d = CHR ''0'' \<longleftrightarrow> d = 0"
  using digit_char_inj [of d 0] by (simp add: digit_char_def)

lemma nat_to_string_unfold [str_simps]:
  "nat_to_string n =
     (if n < 10 then [digit_char n] else nat_to_string (n div 10) @ [digit_char (n mod 10)])"
  by (rule nat_to_string.simps)

lemma nat_to_string_nonempty [simp]: "nat_to_string n \<noteq> []"
  by (subst nat_to_string.simps) simp

lemma nat_to_string_digits: "\<forall>c \<in> set (nat_to_string n). is_digit c"
proof (induction n rule: nat_to_string.induct)
  case (1 n)
  then show ?case by (subst nat_to_string.simps) auto
qed

lemma digits_value_snoc [simp]:
  "digits_value (xs @ [c]) = 10 * digits_value xs + (of_char c - 48)"
  by (simp add: digits_value_def)

theorem digits_value_nat_to_string [simp]: "digits_value (nat_to_string n) = n"
proof (induction n rule: nat_to_string.induct)
  case (1 n)
  show ?case
  proof (cases "n < 10")
    case True
    then show ?thesis by (subst nat_to_string.simps) (simp add: digits_value_def)
  next
    case False
    with "1.IH" have "digits_value (nat_to_string (n div 10)) = n div 10" by simp
    with False show ?thesis by (subst nat_to_string.simps) simp
  qed
qed

lemma nat_to_string_inj [simp]: "nat_to_string m = nat_to_string n \<longleftrightarrow> m = n"
  by (metis digits_value_nat_to_string)

lemma hd_nat_to_string_nonzero: "0 < n \<Longrightarrow> hd (nat_to_string n) \<noteq> CHR ''0''"
proof (induction n rule: nat_to_string.induct)
  case (1 n)
  show ?case
  proof (cases "n < 10")
    case True
    with "1.prems" show ?thesis by (subst nat_to_string.simps) simp
  next
    case False
    then have "0 < n div 10" by simp
    with "1.IH" False show ?thesis by (subst nat_to_string.simps) simp
  qed
qed

lemma length_nat_to_string:
  "10 ^ k \<le> n \<Longrightarrow> n < 10 ^ Suc k \<Longrightarrow> length (nat_to_string n) = Suc k"
proof (induction k arbitrary: n)
  case 0
  then show ?case by (subst nat_to_string.simps) simp
next
  case (Suc k)
  then have "10 ^ k \<le> n div 10" and "n div 10 < 10 ^ Suc k"
    by (simp_all add: less_eq_div_iff_mult_less_eq div_less_iff_less_mult mult.commute)
  then have "length (nat_to_string (n div 10)) = Suc k" by (rule Suc.IH)
  moreover have "\<not> n < 10"
  proof -
    from Suc.prems(1) have "10 * 10 ^ k \<le> n" by simp
    moreover have "1 \<le> (10::nat) ^ k" by simp
    ultimately show ?thesis by linarith
  qed
  ultimately show ?case by (subst nat_to_string.simps) simp
qed

subsection \<open>Lemmas on the string methods\<close>

lemma length_js_slice_last [simp]: "length (js_slice_last n s) = min n (length s)"
  by (simp add: js_slice_last_def)

lemma set_js_slice_last: "set (js_slice_last n s) \<subseteq> set s"
  by (simp add: js_slice_last_def set_drop_subset)

lemma js_slice_last_short [simp]: "length s \<le> n \<Longrightarrow> js_slice_last n s = s"
  by (simp add: js_slice_last_def)

lemma js_trim_empty_iff: "js_trim s = [] \<longleftrightarrow> (\<forall>c \<in> set s. is_js_space c)"
proof -
  let ?d = "dropWhile is_js_space s"
  have "(\<forall>x \<in> set ?d. is_js_space x) \<longleftrightarrow> ?d = []"
  proof
    assume all: "\<forall>x \<in> set ?d. is_js_space x"
    show "?d = []"
    proof (rule ccontr)
      assume ne: "?d \<noteq> []"
      then have "\<not> is_js_space (hd ?d)" by (rule hd_dropWhile)
      moreover from ne have "hd ?d \<in> set ?d" by simp
      ultimately show False using all by blast
    qed
  qed (auto dest: set_dropWhileD)
  then show ?thesis by (auto simp: js_trim_def dropWhile_eq_Nil_conv dest: set_dropWhileD)
qed

lemma replace_ws_runs_no_space: "c \<in> set (replace_ws_runs s) \<Longrightarrow> \<not> is_js_space c"
proof (induction s rule: replace_ws_runs.induct)
  case (2 c cs)
  then show ?case by (auto simp: is_js_space_def split: if_splits)
qed simp

lemma nat_to_string_no_space: "c \<in> set (nat_to_string n) \<Longrightarrow> \<not> is_js_space c"
  using nat_to_string_digits [of n] by (auto simp: is_digit_def is_js_space_def)

lemma split_on_nonempty: "split_on d r \<noteq> []"
  by (induction r) (auto split: list.splits)

lemma split_on_prefix: "d \<notin> set w \<Longrightarrow> \<exists>p ps. split_on d (w @ r) = (w @ p) # ps"
proof (induction w)
  case Nil
  show ?case using split_on_nonempty [of d r] by (cases "split_on d r") simp_all
next
  case (Cons c w)
  then obtain p ps where "split_on d (w @ r) = (w @ p) # ps" by auto
  with Cons.prems show ?case by (auto simp: eq_commute [of d c])
qed

lemma split_on_sep: "d \<notin> set w \<Longrightarrow> split_on d (w @ d # r) = w # split_on d r"
  by (induction w) auto

end
