(* ===== verification/Regex.thy ===== *)
theory Regex
  imports Prelude
begin

text \<open>
  Anchored regular expressions, as the JavaScript \<open>RegExp.prototype.test\<close> calls of the
  validation schemas use them: a pattern \<open>^...$\<close> without back-references or
  look-around, so that \<open>test\<close> succeeds exactly when the whole input is in the language
  of the pattern. A pattern is a value of \<open>rexp\<close> (character classes as lists of code
  ranges, bounded repetition \<open>{n,m}\<close> and \<open>?\<close> derived from concatenation and
  alternation), its meaning is \<open>lang\<close>, and the executable matcher \<open>matches\<close> runs
  Brzozowski derivatives. The theory proves the matcher correct against \<open>lang\<close> and
  computes the language of bounded repetitions of a class.
\<close>

datatype rexp =
    Zero
  | One
  | Atom "(nat \<times> nat) list"
  | Alt rexp rexp
  | Conc rexp rexp

definition in_class :: "(nat \<times> nat) list \<Rightarrow> char \<Rightarrow> bool" where
  "in_class cs c \<longleftrightarrow> list_ex (\<lambda>(lo, hi). lo \<le> of_char c \<and> of_char c \<le> hi) cs"

definition conc :: "string set \<Rightarrow> string set \<Rightarrow> string set" where
  "conc A B = {u @ v | u v. u \<in> A \<and> v \<in> B}"

primrec lang :: "rexp \<Rightarrow> string set" where
  "lang Zero = {}"
| "lang One = {[]}"
| "lang (Atom cs) = {[c] | c. in_class cs c}"
| "lang (Alt r s) = lang r \<union> lang s"
| "lang (Conc r s) = conc (lang r) (lang s)"

primrec nullable :: "rexp \<Rightarrow> bool" where
  "nullable Zero = False"
| "nullable One = True"
| "nullable (Atom cs) = False"
| "nullable (Alt r s) = (nullable r \<or> nullable s)"
| "nullable (Conc r s) = (nullable r \<and> nullable s)"

primrec deriv :: "char \<Rightarrow> rexp \<Rightarrow> rexp" where
  "deriv c Zero = Zero"
| "deriv c One = Zero"
| "deriv c (Atom cs) = (if in_class cs c then One else Zero)"
| "deriv c (Alt r s) = Alt (deriv c r) (deriv c s)"
| "deriv c (Conc r s) =
     (if nullable r then Alt (Conc (deriv c r) s) (deriv c s) else Conc (deriv c r) s)"

definition matches :: "rexp \<Rightarrow> string \<Rightarrow> bool" where
  "matches r w = nullable (foldl (\<lambda>r c. deriv c r) r w)"

subsection \<open>Derived forms: \<open>?\<close>, \<open>{n}\<close>, \<open>{0,n}\<close>, \<open>{n,m}\<close>\<close>

definition opt :: "rexp \<Rightarrow> rexp" where
  "opt r = Alt One r"

primrec rep :: "nat \<Rightarrow> rexp \<Rightarrow> rexp" where
  "rep 0 r = One"
| "rep (Suc n) r = Conc r (rep n r)"

primrec rep_upto :: "nat \<Rightarrow> rexp \<Rightarrow> rexp" where
  "rep_upto 0 r = One"
| "rep_upto (Suc n) r = opt (Conc r (rep_upto n r))"

definition rep_range :: "nat \<Rightarrow> nat \<Rightarrow> rexp \<Rightarrow> rexp" where
  "rep_range n m r = Conc (rep n r) (rep_upto (m - n) r)"

subsection \<open>The matcher is correct\<close>

lemma Cons_in_conc:
  "c # w \<in> conc A B \<longleftrightarrow> (\<exists>u v. w = u @ v \<and> c # u \<in> A \<and> v \<in> B) \<or> ([] \<in> A \<and> c # w \<in> B)"
  by (auto simp: conc_def Cons_eq_append_conv)

lemma Nil_in_conc [simp]: "[] \<in> conc A B \<longleftrightarrow> [] \<in> A \<and> [] \<in> B"
  by (auto simp: conc_def)

lemma nullable_iff: "nullable r \<longleftrightarrow> [] \<in> lang r"
  by (induction r) auto

lemma conc_deriv_left: "conc {w. c # w \<in> A} B = {w. \<exists>u v. w = u @ v \<and> c # u \<in> A \<and> v \<in> B}"
  by (auto simp: conc_def)

lemma lang_deriv: "lang (deriv c r) = {w. c # w \<in> lang r}"
proof (induction r)
  case (Conc r s)
  then show ?case by (auto simp: Cons_in_conc nullable_iff conc_deriv_left)
qed auto

theorem matches_iff: "matches r w \<longleftrightarrow> w \<in> lang r"
proof (induction w arbitrary: r)
  case Nil
  then show ?case by (simp add: matches_def nullable_iff)
next
  case (Cons c w)
  have "matches r (c # w) = matches (deriv c r) w" by (simp add: matches_def)
  also have "\<dots> \<longleftrightarrow> w \<in> lang (deriv c r)" by (rule Cons.IH)
  finally show ?case by (simp add: lang_deriv)
qed

subsection \<open>Languages of bounded repetitions of one class\<close>

lemma lang_opt [simp]: "lang (opt r) = insert [] (lang r)"
  by (simp add: opt_def)

lemma Cons_conc_single [simp]: "c # w \<in> conc {[d] | d. P d} B \<longleftrightarrow> P c \<and> w \<in> B"
proof
  assume "c # w \<in> conc {[d] | d. P d} B"
  then show "P c \<and> w \<in> B" by (auto simp: conc_def)
next
  assume "P c \<and> w \<in> B"
  then have "[c] @ w \<in> conc {[d] | d. P d} B" unfolding conc_def by blast
  then show "c # w \<in> conc {[d] | d. P d} B" by simp
qed

lemma Cons_conc_singleton [simp]: "c # w \<in> conc {[d]} B \<longleftrightarrow> c = d \<and> w \<in> B"
  using Cons_conc_single [of c w "\<lambda>x. x = d" B] by simp

lemma lang_rep_Atom:
  "lang (rep n (Atom cs)) = {w. length w = n \<and> (\<forall>c \<in> set w. in_class cs c)}"
proof (induction n)
  case (Suc n)
  show ?case
  proof (rule set_eqI)
    fix w
    show "w \<in> lang (rep (Suc n) (Atom cs)) \<longleftrightarrow>
        w \<in> {w. length w = Suc n \<and> (\<forall>c \<in> set w. in_class cs c)}"
      using Suc.IH by (cases w) auto
  qed
qed auto

lemma lang_rep_upto_Atom:
  "lang (rep_upto n (Atom cs)) = {w. length w \<le> n \<and> (\<forall>c \<in> set w. in_class cs c)}"
proof (induction n)
  case (Suc n)
  show ?case
  proof (rule set_eqI)
    fix w
    show "w \<in> lang (rep_upto (Suc n) (Atom cs)) \<longleftrightarrow>
        w \<in> {w. length w \<le> Suc n \<and> (\<forall>c \<in> set w. in_class cs c)}"
      using Suc.IH by (cases w) auto
  qed
qed auto

lemma conc_length_split:
  "conc {w. length w = n \<and> (\<forall>c \<in> set w. P c)} {w. length w \<le> k \<and> (\<forall>c \<in> set w. P c)} =
   {w. n \<le> length w \<and> length w \<le> n + k \<and> (\<forall>c \<in> set w. P c)}"
proof (rule set_eqI)
  fix w
  show "w \<in> conc {w. length w = n \<and> (\<forall>c \<in> set w. P c)} {w. length w \<le> k \<and> (\<forall>c \<in> set w. P c)}
    \<longleftrightarrow> w \<in> {w. n \<le> length w \<and> length w \<le> n + k \<and> (\<forall>c \<in> set w. P c)}"
  proof
    assume "w \<in> {w. n \<le> length w \<and> length w \<le> n + k \<and> (\<forall>c \<in> set w. P c)}"
    then have "w = take n w @ drop n w" and "length (take n w) = n"
      and "length (drop n w) \<le> k" and "\<forall>c \<in> set w. P c" by auto
    then show "w \<in> conc {w. length w = n \<and> (\<forall>c \<in> set w. P c)} {w. length w \<le> k \<and> (\<forall>c \<in> set w. P c)}"
      unfolding conc_def by (blast dest: in_set_takeD in_set_dropD)
  qed (auto simp: conc_def)
qed

theorem lang_rep_range_Atom:
  "n \<le> m \<Longrightarrow>
   lang (rep_range n m (Atom cs)) = {w. n \<le> length w \<and> length w \<le> m \<and> (\<forall>c \<in> set w. in_class cs c)}"
  by (simp add: rep_range_def lang_rep_Atom lang_rep_upto_Atom conc_length_split)

end
