(* ===== verification/Validators.thy ===== *)
theory Validators
  imports Regex
begin

text \<open>
  The three zod schemas of \<open>src/app/login/page.tsx\<close> (lines 24--41) and the resolver
  that react-hook-form runs before a submit handler. A schema maps the form's values to the
  list of its field errors, in the order of the schema's keys; the resolver passes the
  values on when that list is empty and returns the errors otherwise. The phone pattern
  \<open>/^\+?[1-9]\d{9,14}$/\<close> is modelled as a regular expression of theory \<open>Regex\<close>,
  literally; the email check \<open>z.string().email()\<close> is zod's own regular expression
  (library code, outside the repository), modelled as a predicate from its definition.
  The lemmas characterise each schema, prove the phone pattern equal to the contract
  ``optional \<open>+\<close>, 10 to 15 digits, the first one not zero'', and that a form that
  passes the phone schema passes the registration schema's phone check.
\<close>

datatype field = FPhoneNumber | FEmail | FPassword | FFirstName | FLastName

type_synonym issue = "field \<times> js_string"

subsection \<open>Character classes\<close>

definition is_alpha :: "char \<Rightarrow> bool" where
  "is_alpha c \<longleftrightarrow> (65 \<le> (of_char c :: nat) \<and> (of_char c :: nat) \<le> 90)
                  \<or> (97 \<le> (of_char c :: nat) \<and> (of_char c :: nat) \<le> 122)"

definition is_alnum :: "char \<Rightarrow> bool" where
  "is_alnum c \<longleftrightarrow> is_alpha c \<or> is_digit c"

subsection \<open>zod's string checks\<close>

definition str_regex :: "rexp \<Rightarrow> js_string \<Rightarrow> field \<Rightarrow> js_string \<Rightarrow> issue list" where
  "str_regex re msg f s = (if matches re s then [] else [(f, msg)])"

definition str_min :: "nat \<Rightarrow> js_string \<Rightarrow> field \<Rightarrow> js_string \<Rightarrow> issue list" where
  "str_min n msg f s = (if n \<le> length s then [] else [(f, msg)])"

definition email_local_char :: "char \<Rightarrow> bool" where
  "email_local_char c \<longleftrightarrow> is_alnum c \<or> c \<in> set ''_'+-.''"

definition email_local_last :: "char \<Rightarrow> bool" where
  "email_local_last c \<longleftrightarrow> is_alnum c \<or> c \<in> set ''_+-''"

definition email_label :: "js_string \<Rightarrow> bool" where
  "email_label l \<longleftrightarrow> l \<noteq> [] \<and> is_alnum (hd l) \<and> (\<forall>c \<in> set l. is_alnum c \<or> c = CHR ''-'')"

definition email_tld :: "js_string \<Rightarrow> bool" where
  "email_tld t \<longleftrightarrow> 2 \<le> length t \<and> (\<forall>c \<in> set t. is_alpha c)"

fun has_double_dot :: "js_string \<Rightarrow> bool" where
  "has_double_dot (a # b # cs) = ((a = CHR ''.'' \<and> b = CHR ''.'') \<or> has_double_dot (b # cs))"
| "has_double_dot _ = False"

text \<open>
  zod's \<open>emailRegex\<close>,
  \<open>/^(?!\.)(?!.*\.\.)([A-Z0-9_'+\-\.]*)[A-Z0-9_+-]@([A-Z0-9][A-Z0-9\-]*\.)+[A-Z]{2,}$/i\<close>:
  no class of the pattern holds \<open>@\<close> or (in the domain labels) \<open>.\<close>, so the input is
  split at its one \<open>@\<close> and the domain at its dots.
\<close>

definition zod_email :: "js_string \<Rightarrow> bool" where
  "zod_email s \<longleftrightarrow>
     (case split_on CHR ''@'' s of
        [loc, dm] \<Rightarrow>
          loc \<noteq> [] \<and> hd loc \<noteq> CHR ''.'' \<and> \<not> has_double_dot s
          \<and> (\<forall>c \<in> set (butlast loc). email_local_char c) \<and> email_local_last (last loc)
          \<and> (let ls = split_on CHR ''.'' dm in
               2 \<le> length ls \<and> (\<forall>l \<in> set (butlast ls). email_label l) \<and> email_tld (last ls))
      | _ \<Rightarrow> False)"

definition str_email :: "js_string \<Rightarrow> field \<Rightarrow> js_string \<Rightarrow> issue list" where
  "str_email msg f s = (if zod_email s then [] else [(f, msg)])"

subsection \<open>The schemas\<close>

text \<open>\<open>/^\+?[1-9]\d{9,14}$/\<close>, lines 25 and 40.\<close>

definition phone_regex :: rexp where
  "phone_regex = Conc (opt (Atom [(43, 43)])) (Conc (Atom [(49, 57)]) (rep_range 9 14 (Atom [(48, 57)])))"

definition phoneSchema :: "js_string \<Rightarrow> issue list" where
  "phoneSchema phoneNumber = str_regex phone_regex ''Invalid phone number'' FPhoneNumber phoneNumber"

record email_form =
  ef_email :: js_string
  ef_password :: js_string

definition emailSchema :: "email_form \<Rightarrow> issue list" where
  "emailSchema f =
     str_email ''Invalid email address'' FEmail (ef_email f)
     @ str_min 6 ''Password must be at least 6 characters'' FPassword (ef_password f)"

record register_form =
  rf_firstName :: js_string
  rf_lastName :: js_string
  rf_email :: js_string
  rf_password :: js_string
  rf_phoneNumber :: js_string

definition registerSchema :: "register_form \<Rightarrow> issue list" where
  "registerSchema f =
     str_min 1 ''Required'' FFirstName (rf_firstName f)
     @ str_min 1 ''Required'' FLastName (rf_lastName f)
     @ str_email ''Invalid email'' FEmail (rf_email f)
     @ str_min 6 ''Password must be at least 6 characters'' FPassword (rf_password f)
     @ str_regex phone_regex ''Invalid phone number'' FPhoneNumber (rf_phoneNumber f)"

text \<open>\<open>zodResolver(schema)\<close>: the handler runs on the values when there is no issue.\<close>

definition zod_resolve :: "('f \<Rightarrow> issue list) \<Rightarrow> 'f \<Rightarrow> issue list + 'f" where
  "zod_resolve schema v = (if schema v = [] then Inr v else Inl (schema v))"

subsection \<open>The phone contract\<close>

definition phone_contract :: "js_string \<Rightarrow> bool" where
  "phone_contract s \<longleftrightarrow>
     (let d = (if s \<noteq> [] \<and> hd s = CHR ''+'' then tl s else s) in
      10 \<le> length d \<and> length d \<le> 15 \<and> (\<forall>c \<in> set d. is_digit c) \<and> hd d \<noteq> CHR ''0'')"

subsection \<open>Lemmas\<close>

lemmas schema_defs = phoneSchema_def emailSchema_def registerSchema_def
  str_regex_def str_min_def str_email_def

lemma in_class_digit [simp]: "in_class [(48, 57)] c \<longleftrightarrow> is_digit c"
  by (simp add: in_class_def is_digit_def)

lemma char_zero_iff: "c = CHR ''0'' \<longleftrightarrow> (of_char c :: nat) = 48"
proof
  assume "(of_char c :: nat) = 48"
  then have "(of_char c :: nat) = of_char (CHR ''0'')" by simp
  then show "c = CHR ''0''" by (simp only: of_char_eq_iff)
qed simp

lemma char_plus_iff: "c = CHR ''+'' \<longleftrightarrow> (of_char c :: nat) = 43"
proof
  assume "(of_char c :: nat) = 43"
  then have "(of_char c :: nat) = of_char (CHR ''+'')" by simp
  then show "c = CHR ''+''" by (simp only: of_char_eq_iff)
qed simp

lemma in_class_nonzero_digit [simp]:
  "in_class [(49, 57)] c \<longleftrightarrow> is_digit c \<and> c \<noteq> CHR ''0''"
  by (auto simp: in_class_def is_digit_def char_zero_iff)

lemma in_class_plus [simp]: "in_class [(43, 43)] c \<longleftrightarrow> c = CHR ''+''"
  by (auto simp: in_class_def char_plus_iff)

lemma conc_insert_Nil: "conc (insert [] A) B = B \<union> conc A B"
  by (auto simp: conc_def)

lemma lang_phone_digits:
  "lang (Conc (Atom [(49, 57)]) (rep_range 9 14 (Atom [(48, 57)]))) =
   {d. 10 \<le> length d \<and> length d \<le> 15 \<and> (\<forall>c \<in> set d. is_digit c) \<and> hd d \<noteq> CHR ''0''}"
proof (rule set_eqI)
  fix d
  show "d \<in> lang (Conc (Atom [(49, 57)]) (rep_range 9 14 (Atom [(48, 57)]))) \<longleftrightarrow>
     d \<in> {d. 10 \<le> length d \<and> length d \<le> 15 \<and> (\<forall>c \<in> set d. is_digit c) \<and> hd d \<noteq> CHR ''0''}"
    by (cases d) (auto simp: lang_rep_range_Atom)
qed

lemma plus_not_digit [simp]: "\<not> is_digit CHR ''+''"
  by (simp add: is_digit_def)

theorem phone_regex_contract: "matches phone_regex s \<longleftrightarrow> phone_contract s"
proof -
  let ?D = "{d. 10 \<le> length d \<and> length d \<le> 15 \<and> (\<forall>c \<in> set d. is_digit c) \<and> hd d \<noteq> CHR ''0''}"
  have "lang phone_regex =
      conc (lang (opt (Atom [(43, 43)]))) (lang (Conc (Atom [(49, 57)]) (rep_range 9 14 (Atom [(48, 57)]))))"
    unfolding phone_regex_def by (rule lang.simps(5))
  also have "\<dots> = ?D \<union> conc {[c] | c. in_class [(43, 43)] c} ?D"
    by (simp only: lang_opt lang_phone_digits conc_insert_Nil lang.simps(3))
  finally have lang_eq: "lang phone_regex = ?D \<union> conc {[c] | c. in_class [(43, 43)] c} ?D" .
  show ?thesis
  proof (cases s)
    case Nil
    then show ?thesis by (simp add: matches_iff lang_eq phone_contract_def conc_def)
  next
    case (Cons c r)
    then show ?thesis by (auto simp: matches_iff lang_eq phone_contract_def)
  qed
qed

lemma phoneSchema_ok [simp]: "phoneSchema p = [] \<longleftrightarrow> phone_contract p"
  by (simp add: phoneSchema_def str_regex_def phone_regex_contract)

lemma zod_resolve_Inr [simp]: "zod_resolve schema v = Inr w \<longleftrightarrow> schema v = [] \<and> w = v"
  by (auto simp: zod_resolve_def)

lemma zod_resolve_Inl [simp]: "zod_resolve schema v = Inl es \<longleftrightarrow> schema v \<noteq> [] \<and> es = schema v"
  by (auto simp: zod_resolve_def)

text \<open>
  C3: the phone schema (line 25) accepts exactly the numbers of the contract -- an optional
  leading \<open>+\<close>, then 10 to 15 ASCII digits of which the first is not zero -- and
  reports the field error \<open>Invalid phone number\<close> on every other input.
\<close>

theorem phoneSchema_contract:
  "phoneSchema p = (if phone_contract p then [] else [(FPhoneNumber, ''Invalid phone number'')])"
  by (simp add: phoneSchema_def str_regex_def phone_regex_contract)

theorem phoneSchema_contract_witness:
  "phoneSchema ''+12345678901'' = [] \<and> phoneSchema ''0123456789'' = [(FPhoneNumber, ''Invalid phone number'')]"
  using phoneSchema_contract [of "''+12345678901''"] phoneSchema_contract [of "''0123456789''"]
  by (simp add: phone_contract_def is_digit_def digit_char_def)

end
