(* ===== verification/Auth.thy ===== *)
theory Auth
  imports Validators
begin

text \<open>
  The authentication page \<open>AuthPage\<close> of \<open>src/app/login/page.tsx\<close>: its React state
  (lines 71--84), the three react-hook-form forms (lines 87--112), the module-level mock
  directory (lines 45--59), the one-time-code generator (lines 62--63), the handlers
  (lines 117--215) and the inline handlers of the rendered controls (lines 255--596).
  Each handler is a function from the state to the new state (and the list of calls it makes
  to the session store and the router); the state the handler reads is the one of the render
  it closes over, and the several \<open>setX\<close> calls of one handler are applied in order, the
  last one of a variable winning, as React batches them. Which controls are rendered, and
  which are disabled, is \<open>enabled\<close>; the page is the machine whose transitions are the
  enabled events, and \<open>reachable\<close> its states from the first render.
  \<open>Math.random()\<close> is an input of the events that call it, a real in \<open>[0, 1)\<close>
  (\<open>env_ok\<close>); floating-point rounding of \<open>100000 + r * 900000\<close> is not modelled.
\<close>

subsection \<open>Data\<close>

datatype auth_mode = PhoneSignin | EmailSignin | SignupPhone | SignupForm

datatype otp_step = EnterPhone | EnterOtp

datatype role = Admin | Teacher | Parent

record user =
  u_id :: js_string
  u_name :: js_string
  u_email :: js_string
  u_role :: role
  u_avatar :: js_string
  u_isActive :: bool
  u_createdAt :: js_string

text \<open>Calls the page makes outside itself: \<open>login(user)\<close> and \<open>router.push(path)\<close>.\<close>

datatype effect = Login user | Push js_string

definition mockAdmin_email :: js_string where
  "mockAdmin_email = ''ramesh@gmail.com''"

definition mockAdmin_password :: js_string where
  "mockAdmin_password = ''Ramesh@123''"

definition mockAdmin_user :: user where
  "mockAdmin_user =
     \<lparr>u_id = ''1'', u_name = ''Ramesh'', u_email = ''ramesh@gmail.com'', u_role = Admin,
      u_avatar = ''https://images.pexels.com/photos/774909/pexels-photo-774909.jpeg?auto=compress&cs=tinysrgb&w=400'',
      u_isActive = True, u_createdAt = ''2024-01-15''\<rparr>"

record auth_state =
  mode :: auth_mode
  step :: otp_step
  generatedOtp :: js_string
  otp :: js_string
  otpSuccess :: js_string
  otpError :: js_string
  showPassword :: bool
  authError :: js_string
  phoneForm :: js_string
  phoneErrors :: "issue list"
  emailForm :: email_form
  emailErrors :: "issue list"
  signupForm :: register_form
  signupErrors :: "issue list"
  registeredUsers :: "user list"

definition auth_init :: auth_state where
  "auth_init =
     \<lparr>mode = PhoneSignin, step = EnterPhone, generatedOtp = [], otp = [], otpSuccess = [],
      otpError = [], showPassword = False, authError = [], phoneForm = [], phoneErrors = [],
      emailForm = \<lparr>ef_email = [], ef_password = []\<rparr>, emailErrors = [],
      signupForm = \<lparr>rf_firstName = [], rf_lastName = [], rf_email = [], rf_password = [],
                    rf_phoneNumber = []\<rparr>,
      signupErrors = [], registeredUsers = [mockAdmin_user]\<rparr>"

subsection \<open>The one-time code\<close>

text \<open>\<open>Math.floor(100000 + Math.random() * 900000).toString()\<close>\<close>

definition generateOTP :: "real \<Rightarrow> js_string" where
  "generateOTP r = nat_to_string (nat \<lfloor>100000 + r * 900000\<rfloor>)"

text \<open>A well-formed code: six decimal digits, the first one not zero.\<close>

definition otp_code :: "js_string \<Rightarrow> bool" where
  "otp_code s \<longleftrightarrow> length s = 6 \<and> (\<forall>c \<in> set s. is_digit c) \<and> hd s \<noteq> CHR ''0''"

subsection \<open>Handlers\<close>

definition handleSendOtp :: "real \<Rightarrow> js_string \<Rightarrow> auth_state \<Rightarrow> auth_state" where
  "handleSendOtp r phoneNumber s =
     (let newOtp = generateOTP r in
      s\<lparr>otp := [], otpError := [], generatedOtp := newOtp, step := EnterOtp,
        otpSuccess := '' (Demo OTP: '' @ newOtp @ '')'',
        signupForm := (if mode s = SignupPhone
                       then (signupForm s)\<lparr>rf_phoneNumber := phoneNumber\<rparr>
                       else signupForm s)\<rparr>)"

definition handleVerifyOtp :: "auth_state \<Rightarrow> auth_state \<times> effect list" where
  "handleVerifyOtp s =
     (if otp s \<noteq> generatedOtp s
      then (s\<lparr>otpError := ''Invalid OTP. Please try again.'', otpSuccess := []\<rparr>, [])
      else if mode s = PhoneSignin
      then (s\<lparr>otpError := [], otpSuccess := ''OTP verified.''\<rparr>, [Login mockAdmin_user, Push ''/''])
      else if mode s = SignupPhone
      then (s\<lparr>mode := SignupForm, step := EnterPhone, generatedOtp := [], otp := [],
              otpSuccess := [], otpError := []\<rparr>, [])
      else (s\<lparr>otpError := [], otpSuccess := ''OTP verified.''\<rparr>, []))"

definition handleResendOtp :: "real \<Rightarrow> auth_state \<Rightarrow> auth_state" where
  "handleResendOtp r s =
     (let newOtp = generateOTP r in
      s\<lparr>generatedOtp := newOtp, otp := [], otpError := [],
        otpSuccess := ''New OTP sent (Demo): '' @ newOtp\<rparr>)"

definition onEmailSignIn :: "email_form \<Rightarrow> auth_state \<Rightarrow> auth_state \<times> effect list" where
  "onEmailSignIn data s =
     (if ef_email data = mockAdmin_email \<and> ef_password data = mockAdmin_password
      then (s\<lparr>authError := []\<rparr>, [Login mockAdmin_user, Push ''/''])
      else (s\<lparr>authError := ''Invalid email or password''\<rparr>, []))"

text \<open>\<open>String(Date.now())\<close> and \<open>new Date().toISOString()\<close> are the inputs \<open>now\<close>, \<open>isoDate\<close>.\<close>

definition onRegister ::
  "nat \<Rightarrow> js_string \<Rightarrow> register_form \<Rightarrow> auth_state \<Rightarrow> auth_state \<times> effect list" where
  "onRegister now isoDate data s =
     (let newUser =
        \<lparr>u_id = nat_to_string now, u_name = rf_firstName data @ '' '' @ rf_lastName data,
         u_email = rf_email data, u_role = Admin, u_avatar = [], u_isActive = True,
         u_createdAt = isoDate\<rparr>
      in (s\<lparr>registeredUsers := registeredUsers s @ [newUser]\<rparr>, [Login newUser, Push ''/'']))"

definition quickFillDemoPhone :: "real \<Rightarrow> auth_state \<Rightarrow> auth_state" where
  "quickFillDemoPhone r s = handleSendOtp r ''+12345678901'' s"

subsection \<open>Inline handlers of the rendered controls\<close>

definition typeOtp :: "js_string \<Rightarrow> auth_state \<Rightarrow> auth_state" where
  "typeOtp v s = s\<lparr>otp := v, otpError := []\<rparr>"

definition editPhone :: "auth_state \<Rightarrow> auth_state" where
  "editPhone s = s\<lparr>step := EnterPhone, otp := [], generatedOtp := [], otpError := [], otpSuccess := []\<rparr>"

definition backToLogin :: "auth_state \<Rightarrow> auth_state" where
  "backToLogin s = s\<lparr>mode := PhoneSignin, otp := [], generatedOtp := [], otpError := [], otpSuccess := []\<rparr>"

definition selectPhoneSignin :: "auth_state \<Rightarrow> auth_state" where
  "selectPhoneSignin s =
     s\<lparr>mode := PhoneSignin, step := EnterPhone, otp := [], generatedOtp := [], otpError := [],
       otpSuccess := []\<rparr>"

definition selectEmailSignin :: "auth_state \<Rightarrow> auth_state" where
  "selectEmailSignin s =
     s\<lparr>mode := EmailSignin, authError := [], otp := [], generatedOtp := [], otpError := [],
       otpSuccess := []\<rparr>"

definition selectSignup :: "auth_state \<Rightarrow> auth_state" where
  "selectSignup s =
     s\<lparr>mode := SignupPhone, step := EnterPhone, otp := [], generatedOtp := [], otpError := [],
       otpSuccess := []\<rparr>"

subsection \<open>Form submission through the resolver\<close>

text \<open>
  \<open>handleSubmit(handler)\<close>: on issues the form's errors are set and the handler does not
  run; otherwise the errors are cleared and the handler runs on the parsed values.
\<close>

definition submitPhoneForm :: "real \<Rightarrow> auth_state \<Rightarrow> auth_state" where
  "submitPhoneForm r s =
     (case zod_resolve phoneSchema (phoneForm s) of
        Inl errs \<Rightarrow> s\<lparr>phoneErrors := errs\<rparr>
      | Inr p \<Rightarrow> handleSendOtp r p (s\<lparr>phoneErrors := []\<rparr>))"

definition submitEmailForm :: "auth_state \<Rightarrow> auth_state \<times> effect list" where
  "submitEmailForm s =
     (case zod_resolve emailSchema (emailForm s) of
        Inl errs \<Rightarrow> (s\<lparr>emailErrors := errs\<rparr>, [])
      | Inr d \<Rightarrow> onEmailSignIn d (s\<lparr>emailErrors := []\<rparr>))"

definition submitSignupForm :: "nat \<Rightarrow> js_string \<Rightarrow> auth_state \<Rightarrow> auth_state \<times> effect list" where
  "submitSignupForm now isoDate s =
     (case zod_resolve registerSchema (signupForm s) of
        Inl errs \<Rightarrow> (s\<lparr>signupErrors := errs\<rparr>, [])
      | Inr d \<Rightarrow> onRegister now isoDate d (s\<lparr>signupErrors := []\<rparr>))"

text \<open>Lines 217--225: the subtitle under the logo.\<close>

definition subtitle :: "auth_state \<Rightarrow> js_string" where
  "subtitle s =
     (if mode s = SignupForm then ''Complete Registration''
      else if mode s = SignupPhone then ''Sign Up''
      else if mode s = EmailSignin then ''Sign In with Email''
      else ''Sign In with Phone'')"

text \<open>Lines 226--252: the card header, the logo with its text and the subtitle.\<close>

definition header_view :: "auth_state \<Rightarrow> js_string \<times> js_string \<times> js_string" where
  "header_view s = (''Finomo Logo'', ''Finomo'', subtitle s)"

subsection \<open>Events, their availability, and the step function\<close>

datatype signup_field = SFirstName | SLastName | SEmail | SPassword

datatype auth_event =
    SelectPhoneSignin | SelectEmailSignin | SelectSignup
  | TypePhone js_string | SubmitPhone real
  | TypeOtp js_string | VerifyOtp | EditPhone | ResendOtp real
  | TypeEmail js_string | TypePassword js_string | TogglePassword | SubmitEmail
  | TypeSignup signup_field js_string | BackToLogin | SubmitRegister nat js_string

fun set_signup_field :: "signup_field \<Rightarrow> js_string \<Rightarrow> register_form \<Rightarrow> register_form" where
  "set_signup_field SFirstName v f = f\<lparr>rf_firstName := v\<rparr>"
| "set_signup_field SLastName v f = f\<lparr>rf_lastName := v\<rparr>"
| "set_signup_field SEmail v f = f\<lparr>rf_email := v\<rparr>"
| "set_signup_field SPassword v f = f\<lparr>rf_password := v\<rparr>"

definition is_phone_mode :: "auth_mode \<Rightarrow> bool" where
  "is_phone_mode m \<longleftrightarrow> m = PhoneSignin \<or> m = SignupPhone"

definition phone_entry :: "auth_state \<Rightarrow> bool" where
  "phone_entry s \<longleftrightarrow> is_phone_mode (mode s) \<and> step s = EnterPhone"

definition otp_entry :: "auth_state \<Rightarrow> bool" where
  "otp_entry s \<longleftrightarrow> is_phone_mode (mode s) \<and> step s = EnterOtp"

text \<open>
  The controls the page renders in a state (lines 255, 302, 380, 448, 535) and the
  \<open>disabled={otp.length !== 6}\<close> guard of the verify button (line 346); the code input
  accepts at most six characters (\<open>maxLength={6}\<close>, line 325).
\<close>

fun enabled :: "auth_state \<Rightarrow> auth_event \<Rightarrow> bool" where
  "enabled s SelectPhoneSignin = True"
| "enabled s SelectEmailSignin = True"
| "enabled s SelectSignup = True"
| "enabled s (TypePhone v) = phone_entry s"
| "enabled s (SubmitPhone r) = phone_entry s"
| "enabled s (TypeOtp v) = (otp_entry s \<and> length v \<le> 6)"
| "enabled s VerifyOtp = (otp_entry s \<and> length (otp s) = 6)"
| "enabled s EditPhone = otp_entry s"
| "enabled s (ResendOtp r) = otp_entry s"
| "enabled s (TypeEmail v) = (mode s = EmailSignin)"
| "enabled s (TypePassword v) = (mode s = EmailSignin)"
| "enabled s TogglePassword = (mode s = EmailSignin)"
| "enabled s SubmitEmail = (mode s = EmailSignin)"
| "enabled s (TypeSignup f v) = (mode s = SignupForm)"
| "enabled s BackToLogin = (mode s = SignupForm)"
| "enabled s (SubmitRegister now isoDate) = (mode s = SignupForm)"

text \<open>The contract of \<open>Math.random()\<close>: a value in \<open>[0, 1)\<close>.\<close>

fun env_ok :: "auth_event \<Rightarrow> bool" where
  "env_ok (SubmitPhone r) = (0 \<le> r \<and> r < 1)"
| "env_ok (ResendOtp r) = (0 \<le> r \<and> r < 1)"
| "env_ok e = True"

fun auth_step :: "auth_state \<Rightarrow> auth_event \<Rightarrow> auth_state \<times> effect list" where
  "auth_step s SelectPhoneSignin = (selectPhoneSignin s, [])"
| "auth_step s SelectEmailSignin = (selectEmailSignin s, [])"
| "auth_step s SelectSignup = (selectSignup s, [])"
| "auth_step s (TypePhone v) = (s\<lparr>phoneForm := v\<rparr>, [])"
| "auth_step s (SubmitPhone r) = (submitPhoneForm r s, [])"
| "auth_step s (TypeOtp v) = (typeOtp v s, [])"
| "auth_step s VerifyOtp = handleVerifyOtp s"
| "auth_step s EditPhone = (editPhone s, [])"
| "auth_step s (ResendOtp r) = (handleResendOtp r s, [])"
| "auth_step s (TypeEmail v) = (s\<lparr>emailForm := (emailForm s)\<lparr>ef_email := v\<rparr>\<rparr>, [])"
| "auth_step s (TypePassword v) = (s\<lparr>emailForm := (emailForm s)\<lparr>ef_password := v\<rparr>\<rparr>, [])"
| "auth_step s TogglePassword = (s\<lparr>showPassword := \<not> showPassword s\<rparr>, [])"
| "auth_step s SubmitEmail = submitEmailForm s"
| "auth_step s (TypeSignup f v) = (s\<lparr>signupForm := set_signup_field f v (signupForm s)\<rparr>, [])"
| "auth_step s BackToLogin = (backToLogin s, [])"
| "auth_step s (SubmitRegister now isoDate) = submitSignupForm now isoDate s"

text \<open>A user session: the enabled events in order, with the calls they make.\<close>

fun auth_run :: "auth_state \<Rightarrow> auth_event list \<Rightarrow> (auth_state \<times> effect list) option" where
  "auth_run s [] = Some (s, [])"
| "auth_run s (e # es) =
     (if enabled s e \<and> env_ok e
      then (case auth_step s e of
              (t, effs) \<Rightarrow> map_option (\<lambda>(u, effs'). (u, effs @ effs')) (auth_run t es))
      else None)"

inductive reachable :: "auth_state \<Rightarrow> bool" where
  init: "reachable auth_init"
| reach: "reachable s \<Longrightarrow> enabled s e \<Longrightarrow> env_ok e \<Longrightarrow> auth_step s e = (t, effs) \<Longrightarrow> reachable t"

subsection \<open>The page invariant\<close>

definition otp_state_ok :: "auth_state \<Rightarrow> bool" where
  "otp_state_ok s \<longleftrightarrow>
     (if otp_entry s then otp_code (generatedOtp s) \<and> length (otp s) \<le> 6
      else generatedOtp s = [] \<and> otp s = [])"

definition signup_ok :: "auth_state \<Rightarrow> bool" where
  "signup_ok s \<longleftrightarrow>
     (mode s = SignupForm \<longrightarrow> step s = EnterPhone \<and> phone_contract (rf_phoneNumber (signupForm s)))
   \<and> (mode s = SignupPhone \<and> step s = EnterOtp \<longrightarrow>
        rf_phoneNumber (signupForm s) = phoneForm s \<and> phone_contract (phoneForm s))"

definition auth_inv :: "auth_state \<Rightarrow> bool" where
  "auth_inv s \<longleftrightarrow> otp_state_ok s \<and> signup_ok s"

subsection \<open>The one-time code is six digits\<close>

lemma otp_draw_bounds:
  assumes "0 \<le> r" and "r < 1"
  shows "100000 \<le> nat \<lfloor>100000 + r * 900000\<rfloor> \<and> nat \<lfloor>100000 + r * 900000\<rfloor> \<le> 999999"
proof -
  have "100000 \<le> 100000 + r * 900000" using assms by simp
  then have lo: "100000 \<le> \<lfloor>100000 + r * 900000\<rfloor>" by (simp add: le_floor_iff)
  have "100000 + r * 900000 < 1000000" using assms by simp
  then have hi: "\<lfloor>100000 + r * 900000\<rfloor> < 1000000" by (simp add: floor_less_iff)
  from lo hi show ?thesis by linarith
qed

lemma generateOTP_code:
  assumes "0 \<le> r" and "r < 1"
  shows "otp_code (generateOTP r)"
proof -
  let ?n = "nat \<lfloor>100000 + r * 900000\<rfloor>"
  from otp_draw_bounds [OF assms] have b: "10 ^ 5 \<le> ?n" "?n < 10 ^ Suc 5" by simp_all
  then have "length (nat_to_string ?n) = Suc 5" by (rule length_nat_to_string)
  moreover have "hd (nat_to_string ?n) \<noteq> CHR ''0''"
    using b by (intro hd_nat_to_string_nonzero) simp
  ultimately show ?thesis
    by (simp add: otp_code_def generateOTP_def nat_to_string_digits)
qed

lemma generateOTP_nonempty [simp]: "generateOTP r \<noteq> []"
  by (simp add: generateOTP_def)

lemma otp_code_nonempty: "otp_code s \<Longrightarrow> s \<noteq> []"
  by (auto simp: otp_code_def)

subsection \<open>Invariant preservation\<close>

lemmas auth_handler_defs = handleSendOtp_def handleVerifyOtp_def handleResendOtp_def
  onEmailSignIn_def onRegister_def typeOtp_def editPhone_def backToLogin_def
  selectPhoneSignin_def selectEmailSignin_def selectSignup_def

lemmas auth_state_defs = auth_inv_def otp_state_ok_def signup_ok_def otp_entry_def phone_entry_def is_phone_mode_def

lemma submitPhoneForm_valid:
  "phone_contract (phoneForm s) \<Longrightarrow>
   submitPhoneForm r s = handleSendOtp r (phoneForm s) (s\<lparr>phoneErrors := []\<rparr>)"
  by (simp add: submitPhoneForm_def zod_resolve_def)

lemma submitPhoneForm_invalid:
  "\<not> phone_contract (phoneForm s) \<Longrightarrow>
   submitPhoneForm r s = s\<lparr>phoneErrors := phoneSchema (phoneForm s)\<rparr>"
  by (simp add: submitPhoneForm_def zod_resolve_def)

lemma submitEmailForm_cases:
  "submitEmailForm s =
     (if emailSchema (emailForm s) = [] then onEmailSignIn (emailForm s) (s\<lparr>emailErrors := []\<rparr>)
      else (s\<lparr>emailErrors := emailSchema (emailForm s)\<rparr>, []))"
  by (simp add: submitEmailForm_def zod_resolve_def)

lemma submitSignupForm_cases:
  "submitSignupForm now isoDate s =
     (if registerSchema (signupForm s) = [] then onRegister now isoDate (signupForm s) (s\<lparr>signupErrors := []\<rparr>)
      else (s\<lparr>signupErrors := registerSchema (signupForm s)\<rparr>, []))"
  by (simp add: submitSignupForm_def zod_resolve_def)

lemma rf_phoneNumber_set_signup_field [simp]:
  "rf_phoneNumber (set_signup_field f v form) = rf_phoneNumber form"
  by (cases f) simp_all

lemma auth_inv_init: "auth_inv auth_init"
  by (simp add: auth_init_def auth_state_defs)

text \<open>The invariant reads six fields; an update that keeps them keeps it.\<close>

lemma auth_inv_frame:
  "auth_inv s \<Longrightarrow> mode t = mode s \<Longrightarrow> step t = step s \<Longrightarrow> generatedOtp t = generatedOtp s \<Longrightarrow>
   otp t = otp s \<Longrightarrow> phoneForm t = phoneForm s \<Longrightarrow>
   rf_phoneNumber (signupForm t) = rf_phoneNumber (signupForm s) \<Longrightarrow> auth_inv t"
  by (simp add: auth_state_defs)

lemma inv_selectPhoneSignin: "auth_inv s \<Longrightarrow> auth_inv (selectPhoneSignin s)"
  by (simp add: selectPhoneSignin_def auth_state_defs)
lemma inv_selectEmailSignin: "auth_inv s \<Longrightarrow> auth_inv (selectEmailSignin s)"
  by (simp add: selectEmailSignin_def auth_state_defs)
lemma inv_selectSignup: "auth_inv s \<Longrightarrow> auth_inv (selectSignup s)"
  by (simp add: selectSignup_def auth_state_defs)
lemma inv_editPhone: "auth_inv s \<Longrightarrow> auth_inv (editPhone s)"
  by (simp add: editPhone_def auth_state_defs split: auth_mode.splits)
lemma inv_backToLogin: "auth_inv s \<Longrightarrow> mode s = SignupForm \<Longrightarrow> auth_inv (backToLogin s)"
  by (simp add: backToLogin_def auth_state_defs)
lemma inv_typeOtp: "auth_inv s \<Longrightarrow> otp_entry s \<Longrightarrow> length v \<le> 6 \<Longrightarrow> auth_inv (typeOtp v s)"
  by (simp add: typeOtp_def auth_state_defs)
lemma inv_handleSendOtp:
  "auth_inv s \<Longrightarrow> phone_entry s \<Longrightarrow> 0 \<le> r \<Longrightarrow> r < 1 \<Longrightarrow> phone_contract (phoneForm s) \<Longrightarrow>
   auth_inv (handleSendOtp r (phoneForm s) s)"
  by (auto simp: handleSendOtp_def auth_state_defs generateOTP_code Let_def)
lemma inv_handleResendOtp:
  "auth_inv s \<Longrightarrow> otp_entry s \<Longrightarrow> 0 \<le> r \<Longrightarrow> r < 1 \<Longrightarrow> auth_inv (handleResendOtp r s)"
  by (simp add: handleResendOtp_def auth_state_defs generateOTP_code Let_def)
lemma inv_handleVerifyOtp:
  "auth_inv s \<Longrightarrow> otp_entry s \<Longrightarrow> auth_inv (fst (handleVerifyOtp s))"
  by (auto simp: handleVerifyOtp_def auth_state_defs)
lemma inv_onEmailSignIn: "auth_inv s \<Longrightarrow> auth_inv (fst (onEmailSignIn d s))"
  by (erule auth_inv_frame) (simp_all add: onEmailSignIn_def)
lemma inv_onRegister: "auth_inv s \<Longrightarrow> auth_inv (fst (onRegister now isoDate d s))"
  by (erule auth_inv_frame) (simp_all add: onRegister_def Let_def)

lemma inv_form_fields:
  "auth_inv s \<Longrightarrow> auth_inv (s\<lparr>phoneErrors := pe\<rparr>)"
  "auth_inv s \<Longrightarrow> auth_inv (s\<lparr>emailErrors := ee\<rparr>)"
  "auth_inv s \<Longrightarrow> auth_inv (s\<lparr>signupErrors := se\<rparr>)"
  "auth_inv s \<Longrightarrow> auth_inv (s\<lparr>emailForm := ef\<rparr>)"
  "auth_inv s \<Longrightarrow> auth_inv (s\<lparr>showPassword := b\<rparr>)"
  "auth_inv s \<Longrightarrow> rf_phoneNumber rf = rf_phoneNumber (signupForm s) \<Longrightarrow> auth_inv (s\<lparr>signupForm := rf\<rparr>)"
  by (erule auth_inv_frame; simp)+

lemma inv_typePhone: "auth_inv s \<Longrightarrow> phone_entry s \<Longrightarrow> auth_inv (s\<lparr>phoneForm := v\<rparr>)"
  by (simp add: auth_state_defs)

lemma auth_step_inv_fst:
  assumes inv: "auth_inv s" and en: "enabled s e" and env: "env_ok e"
  shows "auth_inv (fst (auth_step s e))"
proof (cases e)
  case (SubmitPhone r)
  show ?thesis
  proof (cases "phone_contract (phoneForm s)")
    case True
    have "auth_inv (s\<lparr>phoneErrors := []\<rparr>)" using inv by (rule inv_form_fields)
    then have "auth_inv (handleSendOtp r (phoneForm s) (s\<lparr>phoneErrors := []\<rparr>))"
      using inv_handleSendOtp [of "s\<lparr>phoneErrors := []\<rparr>" r] True en env SubmitPhone
      by (simp add: phone_entry_def)
    with True SubmitPhone show ?thesis by (simp add: submitPhoneForm_valid)
  next
    case False
    with inv SubmitPhone show ?thesis by (simp add: submitPhoneForm_invalid inv_form_fields)
  qed
next
  case SubmitEmail
  show ?thesis
  proof (cases "emailSchema (emailForm s) = []")
    case True
    have "auth_inv (fst (onEmailSignIn (emailForm s) (s\<lparr>emailErrors := []\<rparr>)))"
      using inv_form_fields(2) [OF inv] by (rule inv_onEmailSignIn)
    with True SubmitEmail show ?thesis by (simp add: submitEmailForm_cases)
  next
    case False
    with inv SubmitEmail show ?thesis by (simp add: submitEmailForm_cases inv_form_fields)
  qed
next
  case (SubmitRegister now isoDate)
  show ?thesis
  proof (cases "registerSchema (signupForm s) = []")
    case True
    have "auth_inv (fst (onRegister now isoDate (signupForm s) (s\<lparr>signupErrors := []\<rparr>)))"
      using inv_form_fields(3) [OF inv] by (rule inv_onRegister)
    with True SubmitRegister show ?thesis by (simp add: submitSignupForm_cases)
  next
    case False
    with inv SubmitRegister show ?thesis by (simp add: submitSignupForm_cases inv_form_fields)
  qed
next
  case VerifyOtp
  with inv en show ?thesis by (simp add: inv_handleVerifyOtp)
next
  case (ResendOtp r)
  with inv en env show ?thesis by (simp add: inv_handleResendOtp)
next
  case (TypeOtp v)
  with inv en show ?thesis by (simp add: inv_typeOtp)
next
  case (TypePhone v)
  with inv en show ?thesis by (simp add: inv_typePhone)
next
  case (TypeSignup f v)
  with inv show ?thesis by (simp add: inv_form_fields)
next
  case BackToLogin
  with inv en show ?thesis by (simp add: inv_backToLogin)
qed (use inv in \<open>simp_all add: inv_form_fields inv_selectPhoneSignin inv_selectEmailSignin
  inv_selectSignup inv_editPhone\<close>)

lemma auth_step_inv:
  "auth_inv s \<Longrightarrow> enabled s e \<Longrightarrow> env_ok e \<Longrightarrow> auth_step s e = (t, effs) \<Longrightarrow> auth_inv t"
  using auth_step_inv_fst [of s e] by simp

lemma reachable_auth_inv: "reachable s \<Longrightarrow> auth_inv s"
proof (induction rule: reachable.induct)
  case init
  show ?case by (rule auth_inv_init)
next
  case (reach s e t effs)
  then show ?case by (blast intro: auth_step_inv)
qed

fun_cases auth_run_ConsE: "auth_run s (e # es) = Some r"

lemma auth_run_reachable:
  "reachable s \<Longrightarrow> auth_run s es = Some (t, effs) \<Longrightarrow> reachable t"
proof (induction es arbitrary: s effs)
  case Nil
  then show ?case by simp
next
  case (Cons e es)
  obtain t1 effs1 where en: "enabled s e" and env: "env_ok e"
    and st: "auth_step s e = (t1, effs1)" and rest: "\<exists>effs2. auth_run t1 es = Some (t, effs2)"
    using Cons.prems(2) by (auto elim!: auth_run_ConsE split: if_splits prod.splits)
  from Cons.prems(1) en env st have "reachable t1" by (rule reachable.reach)
  with rest show ?case using Cons.IH by blast
qed

end
