(* ===== verification/Auth_Properties.thy ===== *)
theory Auth_Properties
  imports Auth
begin

text \<open>
  The properties of the login page model of theory \<open>Auth\<close>: which events log a user in,
  the consistency of the reachable states, the one-time code's range, the behaviour of
  verify, resend, the mode switches, the email error and the registration schema on every
  branch, that a login stays possible, the sign-in and registration sessions end to end
  through \<open>auth_run\<close> for every input, and reachable states that exhibit behaviour the
  spec does not expect.
\<close>

lemmas auth_eval = auth_init_def auth_handler_defs phone_entry_def otp_entry_def is_phone_mode_def
  submitPhoneForm_def submitEmailForm_def submitSignupForm_def zod_resolve_def schema_defs
  generateOTP_def phone_regex_contract phone_contract_def is_digit_def digit_char_def
  str_simps Let_def

lemma auth_step_Login:
  assumes "auth_step s e = (t, effs)" and "Login u \<in> set effs"
  shows "(e = VerifyOtp \<and> otp s = generatedOtp s \<and> mode s = PhoneSignin \<and> u = mockAdmin_user)
       \<or> (e = SubmitEmail \<and> ef_email (emailForm s) = mockAdmin_email
          \<and> ef_password (emailForm s) = mockAdmin_password \<and> u = mockAdmin_user)
       \<or> (\<exists>now isoDate. e = SubmitRegister now isoDate \<and> registerSchema (signupForm s) = []
          \<and> u_email u = rf_email (signupForm s) \<and> u_role u = Admin)"
proof (cases e)
  case VerifyOtp
  with assms show ?thesis by (auto simp: handleVerifyOtp_def split: if_splits)
next
  case SubmitEmail
  with assms show ?thesis
    by (auto simp: submitEmailForm_cases onEmailSignIn_def split: if_splits)
next
  case (SubmitRegister now isoDate)
  with assms show ?thesis
    by (auto simp: submitSignupForm_cases onRegister_def Let_def split: if_splits)
qed (use assms in \<open>auto simp: submitPhoneForm_def split: sum.splits\<close>)

lemma auth_step_Login_effects:
  assumes "auth_step s e = (t, effs)" and "Login u \<in> set effs"
  shows "effs = [Login u, Push ''/''] \<and> u_role u = Admin"
proof (cases e)
  case VerifyOtp
  with assms show ?thesis by (auto simp: handleVerifyOtp_def mockAdmin_user_def split: if_splits)
next
  case SubmitEmail
  with assms show ?thesis
    by (auto simp: submitEmailForm_cases onEmailSignIn_def mockAdmin_user_def split: if_splits)
next
  case (SubmitRegister now isoDate)
  with assms show ?thesis
    by (auto simp: submitSignupForm_cases onRegister_def Let_def split: if_splits)
qed (use assms in \<open>auto simp: submitPhoneForm_def split: sum.splits\<close>)

text \<open>
  C1: in every reachable state of the page, an event that hands a user to the session store
  (\<open>login\<close>) is one of the three authenticated paths: the verify button in phone sign-in
  with the typed code equal to the issued six-digit code (the mock administrator logs in),
  the email form with the demo credentials (the administrator), or the registration form
  with every field valid (a new administrator with the form's email).
\<close>

theorem login_requires_authentication:
  assumes "reachable s" and "enabled s e" and "auth_step s e = (t, effs)" and "Login u \<in> set effs"
  shows "(e = VerifyOtp \<and> mode s = PhoneSignin \<and> otp s = generatedOtp s \<and> otp_code (otp s)
          \<and> u = mockAdmin_user)
       \<or> (e = SubmitEmail \<and> mode s = EmailSignin \<and> ef_email (emailForm s) = mockAdmin_email
          \<and> ef_password (emailForm s) = mockAdmin_password \<and> u = mockAdmin_user)
       \<or> (\<exists>now isoDate. e = SubmitRegister now isoDate \<and> mode s = SignupForm
          \<and> registerSchema (signupForm s) = [] \<and> u_email u = rf_email (signupForm s) \<and> u_role u = Admin)"
proof -
  have inv: "auth_inv s" using assms(1) by (rule reachable_auth_inv)
  from assms(3,4) consider
      (otp) "e = VerifyOtp" "otp s = generatedOtp s" "mode s = PhoneSignin" "u = mockAdmin_user"
    | (email) "e = SubmitEmail" "ef_email (emailForm s) = mockAdmin_email"
        "ef_password (emailForm s) = mockAdmin_password" "u = mockAdmin_user"
    | (reg) now isoDate where "e = SubmitRegister now isoDate" "registerSchema (signupForm s) = []"
        "u_email u = rf_email (signupForm s)" "u_role u = Admin"
    by (blast dest: auth_step_Login)
  then show ?thesis
  proof cases
    case otp
    with assms(2) inv have "otp_code (generatedOtp s)"
      by (simp add: auth_inv_def otp_state_ok_def)
    with otp show ?thesis by simp
  next
    case email
    with assms(2) show ?thesis by simp
  next
    case reg
    with assms(2) show ?thesis by auto
  qed
qed

lemma reachable_code_entered:
  "reachable (auth_init\<lparr>step := EnterOtp, generatedOtp := ''482913'', otp := ''482913'',
     otpSuccess := '' (Demo OTP: 482913)'', phoneForm := ''+12345678901''\<rparr>)"
proof -
  have "auth_run auth_init [TypePhone ''+12345678901'', SubmitPhone (382913 / 900000), TypeOtp ''482913'']
    = Some (auth_init\<lparr>step := EnterOtp, generatedOtp := ''482913'', otp := ''482913'',
     otpSuccess := '' (Demo OTP: 482913)'', phoneForm := ''+12345678901''\<rparr>, [])"
    by (simp add: auth_eval)
  with reachable.init show ?thesis by (rule auth_run_reachable)
qed

theorem login_requires_authentication_witness:
  "let s = auth_init\<lparr>step := EnterOtp, generatedOtp := ''482913'', otp := ''482913'',
             otpSuccess := '' (Demo OTP: 482913)'', phoneForm := ''+12345678901''\<rparr>
   in reachable s \<and> enabled s VerifyOtp
      \<and> auth_step s VerifyOtp = (fst (auth_step s VerifyOtp), snd (auth_step s VerifyOtp))
      \<and> Login mockAdmin_user \<in> set (snd (auth_step s VerifyOtp))
      \<and> mode s = PhoneSignin \<and> otp s = generatedOtp s \<and> otp_code (otp s)"
proof -
  let ?s = "auth_init\<lparr>step := EnterOtp, generatedOtp := ''482913'', otp := ''482913'',
             otpSuccess := '' (Demo OTP: 482913)'', phoneForm := ''+12345678901''\<rparr>"
  have r: "reachable ?s" by (rule reachable_code_entered)
  have en: "enabled ?s VerifyOtp" by (simp add: auth_eval)
  have l: "Login mockAdmin_user \<in> set (snd (auth_step ?s VerifyOtp))" by (simp add: auth_eval)
  from login_requires_authentication [OF r en prod.collapse [symmetric] l]
  have "mode ?s = PhoneSignin \<and> otp ?s = generatedOtp ?s \<and> otp_code (otp ?s)" by simp
  with r en l show ?thesis by simp
qed

text \<open>
  C2: in every reachable state a one-time code is outstanding exactly while the code entry
  of a phone mode is shown, that code is six digits with a non-zero first digit, and the
  registration form is only shown at the identifier step with a phone number that satisfies
  the phone contract.
\<close>

theorem reachable_page_consistent:
  assumes "reachable s"
  shows "(generatedOtp s \<noteq> [] \<longleftrightarrow> otp_entry s) \<and> (otp_entry s \<longrightarrow> otp_code (generatedOtp s))
       \<and> (mode s = SignupForm \<longrightarrow> step s = EnterPhone \<and> phone_contract (rf_phoneNumber (signupForm s)))"
proof -
  have "auth_inv s" using assms by (rule reachable_auth_inv)
  then show ?thesis
    by (auto simp: auth_inv_def otp_state_ok_def signup_ok_def dest: otp_code_nonempty split: if_splits)
qed

theorem reachable_page_consistent_witness:
  "let s = auth_init\<lparr>step := EnterOtp, generatedOtp := ''482913'', otp := ''482913'',
             otpSuccess := '' (Demo OTP: 482913)'', phoneForm := ''+12345678901''\<rparr>
   in reachable s \<and> (generatedOtp s \<noteq> [] \<longleftrightarrow> otp_entry s) \<and> otp_code (generatedOtp s)"
proof -
  let ?s = "auth_init\<lparr>step := EnterOtp, generatedOtp := ''482913'', otp := ''482913'',
             otpSuccess := '' (Demo OTP: 482913)'', phoneForm := ''+12345678901''\<rparr>"
  have r: "reachable ?s" by (rule reachable_code_entered)
  have "otp_entry ?s" by (simp add: auth_eval)
  with reachable_page_consistent [OF r] r show ?thesis by simp
qed

text \<open>
  C4: for every value \<open>Math.random()\<close> may return, \<open>generateOTP\<close> returns six decimal
  digits, the first not zero, denoting a number from 100000 to 999999.
\<close>

theorem generateOTP_bounds:
  assumes "0 \<le> r" and "r < 1"
  shows "otp_code (generateOTP r) \<and> 100000 \<le> digits_value (generateOTP r)
       \<and> digits_value (generateOTP r) \<le> 999999"
  using generateOTP_code [OF assms] otp_draw_bounds [OF assms] by (simp add: generateOTP_def)

theorem generateOTP_bounds_witness:
  "otp_code (generateOTP (382913 / 900000)) \<and> generateOTP (382913 / 900000) = ''482913''
   \<and> 100000 \<le> digits_value (generateOTP (382913 / 900000))"
proof -
  have "otp_code (generateOTP (382913 / 900000)) \<and> 100000 \<le> digits_value (generateOTP (382913 / 900000))"
    using generateOTP_bounds [of "382913 / 900000"] by simp
  moreover have "generateOTP (382913 / 900000) = ''482913''" by (simp add: auth_eval)
  ultimately show ?thesis by simp
qed

text \<open>
  C5: verifying a typed code equal to the issued one clears the error and performs the
  mode's success transition: phone sign-in logs the administrator in and navigates to the
  root; sign-up moves to the registration form at the identifier step, the challenge
  discarded, with the verified number in the form's phone field.
\<close>

theorem verify_match_success:
  assumes "reachable s" and "enabled s VerifyOtp" and "otp s = generatedOtp s"
    and "auth_step s VerifyOtp = (t, effs)"
  shows "otpError t = []
       \<and> (mode s = PhoneSignin \<longrightarrow> effs = [Login mockAdmin_user, Push ''/''] \<and> otpSuccess t = ''OTP verified.'')
       \<and> (mode s = SignupPhone \<longrightarrow> mode t = SignupForm \<and> step t = EnterPhone \<and> generatedOtp t = []
            \<and> otp t = [] \<and> effs = [] \<and> rf_phoneNumber (signupForm t) = phoneForm s
            \<and> phone_contract (rf_phoneNumber (signupForm t)))"
proof -
  have "auth_inv s" using assms(1) by (rule reachable_auth_inv)
  with assms show ?thesis
    by (auto simp: handleVerifyOtp_def auth_inv_def signup_ok_def otp_entry_def is_phone_mode_def)
qed

theorem verify_match_success_witness:
  "let s = auth_init\<lparr>step := EnterOtp, generatedOtp := ''482913'', otp := ''482913'',
             otpSuccess := '' (Demo OTP: 482913)'', phoneForm := ''+12345678901''\<rparr>
   in reachable s \<and> enabled s VerifyOtp \<and> otp s = generatedOtp s
      \<and> snd (auth_step s VerifyOtp) = [Login mockAdmin_user, Push ''/'']"
proof -
  let ?s = "auth_init\<lparr>step := EnterOtp, generatedOtp := ''482913'', otp := ''482913'',
             otpSuccess := '' (Demo OTP: 482913)'', phoneForm := ''+12345678901''\<rparr>"
  have r: "reachable ?s" by (rule reachable_code_entered)
  have en: "enabled ?s VerifyOtp" and eq: "otp ?s = generatedOtp ?s" and m: "mode ?s = PhoneSignin"
    by (simp_all add: auth_eval)
  from verify_match_success [OF r en eq prod.collapse [symmetric]] m
  have "snd (auth_step ?s VerifyOtp) = [Login mockAdmin_user, Push ''/'']" by simp
  with r en eq show ?thesis by simp
qed

text \<open>
  C6: verifying a typed code different from the issued one keeps the code step, the mode,
  the typed code and the issued code, sets the error \<open>Invalid OTP. Please try again.\<close>
  and calls nothing outside the page.
\<close>

theorem verify_mismatch_keeps_step:
  assumes "enabled s VerifyOtp" and "otp s \<noteq> generatedOtp s"
    and "auth_step s VerifyOtp = (t, effs)"
  shows "step t = EnterOtp \<and> mode t = mode s \<and> otp t = otp s \<and> generatedOtp t = generatedOtp s
       \<and> otpError t = ''Invalid OTP. Please try again.'' \<and> effs = []"
  using assms by (auto simp: handleVerifyOtp_def otp_entry_def)

theorem verify_mismatch_keeps_step_witness:
  "let s = auth_init\<lparr>step := EnterOtp, generatedOtp := ''482913'', otp := ''111111''\<rparr>
   in enabled s VerifyOtp \<and> otp s \<noteq> generatedOtp s \<and> step (fst (auth_step s VerifyOtp)) = EnterOtp
      \<and> otpError (fst (auth_step s VerifyOtp)) = ''Invalid OTP. Please try again.''"
proof -
  let ?s = "auth_init\<lparr>step := EnterOtp, generatedOtp := ''482913'', otp := ''111111''\<rparr>"
  have en: "enabled ?s VerifyOtp" and ne: "otp ?s \<noteq> generatedOtp ?s" by (simp_all add: auth_eval)
  from verify_mismatch_keeps_step [OF en ne prod.collapse [symmetric]] en ne show ?thesis by simp
qed
lemma reachable_signup_code_entered:
  "reachable (auth_init\<lparr>mode := SignupPhone, step := EnterOtp, generatedOtp := ''550000'',
     otp := ''550000'', otpSuccess := '' (Demo OTP: 550000)'', phoneForm := ''+19998887777'',
     signupForm := (signupForm auth_init)\<lparr>rf_phoneNumber := ''+19998887777''\<rparr>\<rparr>)"
proof -
  have "auth_run auth_init [SelectSignup, TypePhone ''+19998887777'', SubmitPhone (1 / 2), TypeOtp ''550000'']
    = Some (auth_init\<lparr>mode := SignupPhone, step := EnterOtp, generatedOtp := ''550000'',
     otp := ''550000'', otpSuccess := '' (Demo OTP: 550000)'', phoneForm := ''+19998887777'',
     signupForm := (signupForm auth_init)\<lparr>rf_phoneNumber := ''+19998887777''\<rparr>\<rparr>, [])"
    by (simp add: auth_eval)
  with reachable.init show ?thesis by (rule auth_run_reachable)
qed

text \<open>
  C7: the registration form is entered only by verifying, in sign-up mode, a typed code equal
  to the issued six-digit code; the form's phone field then holds the number the code was
  sent for, which satisfies the phone contract.
\<close>

theorem signup_form_entered_only_by_verification:
  assumes "reachable s" and "enabled s e" and "auth_step s e = (t, effs)"
    and "mode s \<noteq> SignupForm" and "mode t = SignupForm"
  shows "e = VerifyOtp \<and> mode s = SignupPhone \<and> otp s = generatedOtp s \<and> otp_code (otp s)
       \<and> rf_phoneNumber (signupForm t) = phoneForm s \<and> phone_contract (rf_phoneNumber (signupForm t))"
proof -
  have inv: "auth_inv s" using assms(1) by (rule reachable_auth_inv)
  have "e = VerifyOtp \<and> mode s = SignupPhone \<and> otp s = generatedOtp s"
  proof (cases e)
    case VerifyOtp
    with assms(2-5) show ?thesis by (auto simp: handleVerifyOtp_def split: if_splits)
  next
    case (SubmitPhone r)
    with assms(3-5) show ?thesis
      by (auto simp: submitPhoneForm_def handleSendOtp_def Let_def split: sum.splits)
  next
    case SubmitEmail
    with assms(3-5) show ?thesis by (auto simp: submitEmailForm_cases onEmailSignIn_def split: if_splits)
  next
    case (SubmitRegister now isoDate)
    with assms(3-5) show ?thesis
      by (auto simp: submitSignupForm_cases onRegister_def Let_def split: if_splits)
  qed (use assms(3-5) in \<open>auto simp: auth_handler_defs Let_def\<close>)
  moreover from this assms(2) inv have "otp_code (generatedOtp s)"
    by (simp add: auth_inv_def otp_state_ok_def)
  moreover from calculation assms(2,3) inv
  have "rf_phoneNumber (signupForm t) = phoneForm s \<and> phone_contract (rf_phoneNumber (signupForm t))"
    by (auto simp: handleVerifyOtp_def auth_inv_def signup_ok_def otp_entry_def)
  ultimately show ?thesis by metis
qed


theorem signup_form_entered_only_by_verification_witness:
  "let s = auth_init\<lparr>mode := SignupPhone, step := EnterOtp, generatedOtp := ''550000'',
     otp := ''550000'', otpSuccess := '' (Demo OTP: 550000)'', phoneForm := ''+19998887777'',
     signupForm := (signupForm auth_init)\<lparr>rf_phoneNumber := ''+19998887777''\<rparr>\<rparr>;
       t = fst (auth_step s VerifyOtp)
   in reachable s \<and> enabled s VerifyOtp \<and> mode s \<noteq> SignupForm \<and> mode t = SignupForm
      \<and> rf_phoneNumber (signupForm t) = ''+19998887777'' \<and> otp_code (otp s)"
proof -
  let ?s = "auth_init\<lparr>mode := SignupPhone, step := EnterOtp, generatedOtp := ''550000'',
     otp := ''550000'', otpSuccess := '' (Demo OTP: 550000)'', phoneForm := ''+19998887777'',
     signupForm := (signupForm auth_init)\<lparr>rf_phoneNumber := ''+19998887777''\<rparr>\<rparr>"
  have r: "reachable ?s" by (rule reachable_signup_code_entered)
  have en: "enabled ?s VerifyOtp" and m: "mode ?s \<noteq> SignupForm"
    and m': "mode (fst (auth_step ?s VerifyOtp)) = SignupForm"
    by (simp_all add: auth_eval)
  from signup_form_entered_only_by_verification [OF r en prod.collapse [symmetric] m m']
  have "rf_phoneNumber (signupForm (fst (auth_step ?s VerifyOtp))) = ''+19998887777'' \<and> otp_code (otp ?s)"
    by (simp add: auth_init_def)
  with r en m m' show ?thesis by simp
qed

text \<open>
  C8: submitting a number that satisfies the phone contract issues a fresh code from the
  random draw, shows it in the informational message, clears the typed code and the errors,
  moves to the code step in the same mode and, in sign-up, copies the number into the
  registration form.
\<close>

theorem submit_phone_issues_code:
  assumes "enabled s (SubmitPhone r)" and "env_ok (SubmitPhone r)" and "phone_contract (phoneForm s)"
    and "auth_step s (SubmitPhone r) = (t, effs)"
  shows "step t = EnterOtp \<and> mode t = mode s \<and> generatedOtp t = generateOTP r
       \<and> otp_code (generatedOtp t) \<and> otp t = [] \<and> otpError t = [] \<and> phoneErrors t = []
       \<and> otpSuccess t = '' (Demo OTP: '' @ generatedOtp t @ '')'' \<and> effs = []
       \<and> (mode s = SignupPhone \<longrightarrow> rf_phoneNumber (signupForm t) = phoneForm s)"
  using assms by (auto simp: submitPhoneForm_valid handleSendOtp_def Let_def generateOTP_code)

theorem submit_phone_issues_code_witness:
  "let s = auth_init\<lparr>phoneForm := ''+12345678901''\<rparr>; t = fst (auth_step s (SubmitPhone (382913 / 900000)))
   in enabled s (SubmitPhone (382913 / 900000)) \<and> env_ok (SubmitPhone (382913 / 900000))
      \<and> phone_contract (phoneForm s) \<and> step t = EnterOtp \<and> generatedOtp t = ''482913''"
proof -
  let ?s = "auth_init\<lparr>phoneForm := ''+12345678901''\<rparr>" and ?r = "382913 / 900000 :: real"
  have en: "enabled ?s (SubmitPhone ?r)" and env: "env_ok (SubmitPhone ?r)"
    and pc: "phone_contract (phoneForm ?s)" by (simp_all add: auth_eval)
  from submit_phone_issues_code [OF en env pc prod.collapse [symmetric]]
  have "step (fst (auth_step ?s (SubmitPhone ?r))) = EnterOtp"
    and "generatedOtp (fst (auth_step ?s (SubmitPhone ?r))) = generateOTP ?r" by simp_all
  moreover have "generateOTP ?r = ''482913''" by (simp add: auth_eval)
  ultimately show ?thesis using en env pc by simp
qed

text \<open>
  C9: submitting a number that violates the phone contract only sets the field error
  \<open>Invalid phone number\<close>; the mode, the step and the challenge are unchanged.
\<close>

theorem submit_phone_rejects_invalid:
  assumes "\<not> phone_contract (phoneForm s)"
  shows "auth_step s (SubmitPhone r) = (s\<lparr>phoneErrors := [(FPhoneNumber, ''Invalid phone number'')]\<rparr>, [])"
  using assms by (simp add: submitPhoneForm_invalid phoneSchema_def str_regex_def phone_regex_contract)

theorem submit_phone_rejects_invalid_witness:
  "\<not> phone_contract (phoneForm (auth_init\<lparr>phoneForm := ''0123456789''\<rparr>))
   \<and> auth_step (auth_init\<lparr>phoneForm := ''0123456789''\<rparr>) (SubmitPhone (1 / 2))
     = (auth_init\<lparr>phoneForm := ''0123456789'', phoneErrors := [(FPhoneNumber, ''Invalid phone number'')]\<rparr>, [])"
proof -
  have h: "\<not> phone_contract (phoneForm (auth_init\<lparr>phoneForm := ''0123456789''\<rparr>))"
    by (simp add: auth_eval)
  from submit_phone_rejects_invalid [OF h, of "1 / 2"] h show ?thesis by simp
qed

text \<open>
  C10: resend replaces the issued code with a fresh six-digit code from the random draw,
  clears the typed code and the error, announces the new code, and stays at the code step.
\<close>

theorem resend_fresh_challenge:
  assumes "enabled s (ResendOtp r)" and "env_ok (ResendOtp r)"
    and "auth_step s (ResendOtp r) = (t, effs)"
  shows "generatedOtp t = generateOTP r \<and> otp_code (generatedOtp t) \<and> otp t = [] \<and> otpError t = []
       \<and> otpSuccess t = ''New OTP sent (Demo): '' @ generatedOtp t
       \<and> step t = EnterOtp \<and> mode t = mode s \<and> effs = []"
  using assms by (auto simp: handleResendOtp_def Let_def generateOTP_code otp_entry_def)

theorem resend_fresh_challenge_witness:
  "let s = auth_init\<lparr>step := EnterOtp, generatedOtp := ''482913'', otp := ''48''\<rparr>;
       t = fst (auth_step s (ResendOtp (1 / 2)))
   in enabled s (ResendOtp (1 / 2)) \<and> env_ok (ResendOtp (1 / 2)) \<and> generatedOtp t = ''550000'' \<and> otp t = []"
proof -
  let ?s = "auth_init\<lparr>step := EnterOtp, generatedOtp := ''482913'', otp := ''48''\<rparr>"
  have en: "enabled ?s (ResendOtp (1 / 2))" and env: "env_ok (ResendOtp (1 / 2))" by (simp_all add: auth_eval)
  from resend_fresh_challenge [OF en env prod.collapse [symmetric]]
  have "generatedOtp (fst (auth_step ?s (ResendOtp (1 / 2)))) = generateOTP (1 / 2)"
    and "otp (fst (auth_step ?s (ResendOtp (1 / 2)))) = []" by simp_all
  moreover have "generateOTP (1 / 2) = ''550000''" by (simp add: auth_eval)
  ultimately show ?thesis using en env by simp
qed


text \<open>
  C11: each of the three mode links discards the outstanding challenge (code, typed code and
  both messages); the phone and sign-up links return to the identifier step, while the email
  link keeps the step as it was and clears the authentication error.
\<close>

theorem mode_switch_discards_challenge:
  assumes "e = SelectPhoneSignin \<or> e = SelectEmailSignin \<or> e = SelectSignup"
    and "auth_step s e = (t, effs)"
  shows "generatedOtp t = [] \<and> otp t = [] \<and> otpError t = [] \<and> otpSuccess t = [] \<and> effs = []
       \<and> (e = SelectPhoneSignin \<longrightarrow> mode t = PhoneSignin \<and> step t = EnterPhone)
       \<and> (e = SelectSignup \<longrightarrow> mode t = SignupPhone \<and> step t = EnterPhone)
       \<and> (e = SelectEmailSignin \<longrightarrow> mode t = EmailSignin \<and> step t = step s \<and> authError t = [])"
  using assms by (auto simp: selectPhoneSignin_def selectEmailSignin_def selectSignup_def)

theorem mode_switch_discards_challenge_witness:
  "let s = auth_init\<lparr>step := EnterOtp, generatedOtp := ''482913'', otp := ''48''\<rparr>;
       t = fst (auth_step s SelectEmailSignin)
   in generatedOtp t = [] \<and> otp t = [] \<and> mode t = EmailSignin \<and> step t = EnterOtp"
proof -
  let ?s = "auth_init\<lparr>step := EnterOtp, generatedOtp := ''482913'', otp := ''48''\<rparr>"
  from mode_switch_discards_challenge [of SelectEmailSignin, OF _ prod.collapse [symmetric], of ?s]
  show ?thesis by simp
qed



text \<open>
  C13: the registration schema rejects an empty first name with the field error
  \<open>Required\<close>, and the submission then only records the schema's errors.
\<close>

theorem register_rejects_empty_first_name:
  assumes "rf_firstName (signupForm s) = []"
  shows "(FFirstName, ''Required'') \<in> set (registerSchema (signupForm s))
       \<and> auth_step s (SubmitRegister now isoDate) = (s\<lparr>signupErrors := registerSchema (signupForm s)\<rparr>, [])"
  using assms by (simp add: submitSignupForm_cases registerSchema_def str_min_def)

theorem register_rejects_empty_first_name_witness:
  "let f = \<lparr>rf_firstName = [], rf_lastName = ''Rao'', rf_email = ''asha@example.com'',
            rf_password = ''secret1'', rf_phoneNumber = ''+19998887777''\<rparr>;
       s = auth_init\<lparr>mode := SignupForm, signupForm := f\<rparr>
   in rf_firstName (signupForm s) = [] \<and> registerSchema f = [(FFirstName, ''Required'')]
      \<and> snd (auth_step s (SubmitRegister 1700000000000 ''2023-11-14T22:13:20.000Z'')) = []"
proof -
  let ?f = "\<lparr>rf_firstName = [], rf_lastName = ''Rao'', rf_email = ''asha@example.com'',
            rf_password = ''secret1'', rf_phoneNumber = ''+19998887777''\<rparr>"
  let ?s = "auth_init\<lparr>mode := SignupForm, signupForm := ?f\<rparr>"
  have h: "rf_firstName (signupForm ?s) = []" by simp
  have "registerSchema ?f = [(FFirstName, ''Required'')]"
    by (simp add: schema_defs phone_regex_contract phone_contract_def zod_email_def email_local_char_def
        email_local_last_def email_label_def email_tld_def is_alnum_def is_alpha_def is_digit_def)
  with register_rejects_empty_first_name [OF h, of 1700000000000 "''2023-11-14T22:13:20.000Z''"]
  show ?thesis by simp
qed


text \<open>
  C14: from any state of the page some sequence of enabled events logs the administrator in
  (through the email link and the demo credentials): the page never locks the user out.
\<close>

theorem login_always_possible:
  "\<exists>es t effs. auth_run s es = Some (t, effs) \<and> Login mockAdmin_user \<in> set effs"
proof -
  let ?es = "[SelectEmailSignin, TypeEmail mockAdmin_email, TypePassword mockAdmin_password, SubmitEmail]"
  have "Login mockAdmin_user \<in> set (snd (the (auth_run s ?es)))"
    and "auth_run s ?es \<noteq> None"
    by (simp_all add: selectEmailSignin_def submitEmailForm_cases onEmailSignIn_def schema_defs
        mockAdmin_email_def mockAdmin_password_def zod_email_def email_local_char_def
        email_local_last_def email_label_def email_tld_def is_alnum_def is_alpha_def is_digit_def)
  then show ?thesis by (metis option.collapse prod.collapse)
qed

text \<open>
  C15: phone sign-in end to end: for every number the phone contract accepts, every draw of
  \<open>Math.random()\<close> and every six typed characters, the session of typing the number,
  sending the code, typing and verifying logs the administrator in and navigates to the root
  exactly when the typed characters are the issued code; otherwise it stays at code entry with
  the message \<open>Invalid OTP. Please try again.\<close> and calls nothing.
\<close>

theorem phone_signin_session:
  assumes "phone_contract p" and "0 \<le> r" and "r < 1" and "length c = 6"
  shows "\<exists>t. auth_run auth_init [TypePhone p, SubmitPhone r, TypeOtp c, VerifyOtp]
            = Some (t, if c = generateOTP r then [Login mockAdmin_user, Push ''/''] else [])
          \<and> step t = EnterOtp \<and> generatedOtp t = generateOTP r
          \<and> otpError t = (if c = generateOTP r then [] else ''Invalid OTP. Please try again.'')"
  using assms by (simp add: auth_init_def submitPhoneForm_valid handleSendOtp_def typeOtp_def
      handleVerifyOtp_def phone_entry_def otp_entry_def is_phone_mode_def Let_def)

theorem phone_signin_session_witness:
  "\<exists>t. auth_run auth_init [TypePhone ''+12345678901'', SubmitPhone (382913 / 900000), TypeOtp ''000000'', VerifyOtp]
      = Some (t, []) \<and> step t = EnterOtp \<and> otpError t = ''Invalid OTP. Please try again.''"
proof -
  have p: "phone_contract ''+12345678901''" by (simp add: phone_contract_def is_digit_def)
  have g: "generateOTP (382913 / 900000) = ''482913''" by (simp add: auth_eval)
  have ne: "(''000000'' = ''482913'') = False" by simp
  have "0 \<le> (382913 / 900000 :: real)" and "(382913 / 900000 :: real) < 1" and "length ''000000'' = 6"
    by simp_all
  from phone_signin_session [OF p this] show ?thesis unfolding g ne if_False by blast
qed

text \<open>
  C16: registration end to end: for every number the phone contract accepts, every draw and
  every first name, last name, email and password that pass the registration schema together
  with that number, the session of choosing sign-up, verifying the number with the issued code
  and completing the form adds to the page's users, and hands to the session store, a new
  administrator whose id is \<open>String(Date.now())\<close>, whose name joins the two names and whose
  email is the form's; the registration form keeps the verified number.
\<close>

theorem signup_session:
  assumes "0 \<le> r" and "r < 1"
    and "registerSchema \<lparr>rf_firstName = fname, rf_lastName = lname, rf_email = em, rf_password = pw,
                          rf_phoneNumber = p\<rparr> = []"
  shows "\<exists>t. auth_run auth_init [SelectSignup, TypePhone p, SubmitPhone r, TypeOtp (generateOTP r), VerifyOtp,
              TypeSignup SFirstName fname, TypeSignup SLastName lname, TypeSignup SEmail em, TypeSignup SPassword pw,
              SubmitRegister now isoDate]
            = Some (t, [Login \<lparr>u_id = nat_to_string now, u_name = fname @ '' '' @ lname, u_email = em, u_role = Admin,
                              u_avatar = [], u_isActive = True, u_createdAt = isoDate\<rparr>, Push ''/''])
          \<and> rf_phoneNumber (signupForm t) = p
          \<and> registeredUsers t = [mockAdmin_user, \<lparr>u_id = nat_to_string now, u_name = fname @ '' '' @ lname,
              u_email = em, u_role = Admin, u_avatar = [], u_isActive = True, u_createdAt = isoDate\<rparr>]"
proof -
  have p: "phone_contract p"
    using assms(3) by (simp add: registerSchema_def str_regex_def phone_regex_contract split: if_splits)
  have c: "length (generateOTP r) = 6" using generateOTP_code [OF assms(1,2)] by (simp add: otp_code_def)
  from assms p c show ?thesis
    by (simp add: auth_init_def selectSignup_def submitPhoneForm_valid handleSendOtp_def typeOtp_def
        handleVerifyOtp_def submitSignupForm_cases onRegister_def phone_entry_def otp_entry_def
        is_phone_mode_def Let_def)
qed

theorem signup_session_witness:
  "\<exists>t. auth_run auth_init [SelectSignup, TypePhone ''+19998887777'', SubmitPhone (1 / 2), TypeOtp (generateOTP (1 / 2)),
        VerifyOtp, TypeSignup SFirstName ''Asha'', TypeSignup SLastName ''Rao'', TypeSignup SEmail ''asha@example.com'',
        TypeSignup SPassword ''secret1'', SubmitRegister 1700000000000 ''2023-11-14T22:13:20.000Z'']
      = Some (t, [Login \<lparr>u_id = nat_to_string 1700000000000, u_name = ''Asha'' @ '' '' @ ''Rao'',
                        u_email = ''asha@example.com'', u_role = Admin, u_avatar = [], u_isActive = True,
                        u_createdAt = ''2023-11-14T22:13:20.000Z''\<rparr>, Push ''/''])
      \<and> rf_phoneNumber (signupForm t) = ''+19998887777''"
proof -
  have v: "registerSchema \<lparr>rf_firstName = ''Asha'', rf_lastName = ''Rao'', rf_email = ''asha@example.com'',
        rf_password = ''secret1'', rf_phoneNumber = ''+19998887777''\<rparr> = []"
    by (simp add: schema_defs phone_regex_contract phone_contract_def zod_email_def email_local_char_def
        email_local_last_def email_label_def email_tld_def is_alnum_def is_alpha_def is_digit_def)
  have "0 \<le> (1 / 2 :: real)" and "(1 / 2 :: real) < 1" by simp_all
  from signup_session [OF this v, of 1700000000000 "''2023-11-14T22:13:20.000Z''"]
  show ?thesis by blast
qed



text \<open>
  C18: the email link does not reset the step: a reachable state shows the email form with the
  step still at code entry (with no code outstanding).
\<close>

theorem email_switch_stale_step:
  "\<exists>s. reachable s \<and> mode s = EmailSignin \<and> step s = EnterOtp \<and> generatedOtp s = []"
proof -
  let ?s = "auth_init\<lparr>mode := EmailSignin, step := EnterOtp, phoneForm := ''+12345678901''\<rparr>"
  have "auth_run auth_init [TypePhone ''+12345678901'', SubmitPhone (1 / 2), SelectEmailSignin] = Some (?s, [])"
    by (simp add: auth_eval)
  with reachable.init have "reachable ?s" by (rule auth_run_reachable)
  then show ?thesis by (intro exI [of _ ?s]) (simp add: auth_init_def)
qed

text \<open>
  C19: resend does not guarantee a different code: from a reachable state, a draw of
  \<open>Math.random()\<close> makes resend issue the very code that was outstanding.
\<close>

theorem resend_may_repeat_code:
  "\<exists>s r. reachable s \<and> enabled s (ResendOtp r) \<and> env_ok (ResendOtp r)
     \<and> generatedOtp (fst (auth_step s (ResendOtp r))) = generatedOtp s"
proof -
  let ?s = "auth_init\<lparr>step := EnterOtp, generatedOtp := ''482913'', otp := ''482913'',
             otpSuccess := '' (Demo OTP: 482913)'', phoneForm := ''+12345678901''\<rparr>"
  have "reachable ?s" by (rule reachable_code_entered)
  moreover have "enabled ?s (ResendOtp (382913 / 900000)) \<and> env_ok (ResendOtp (382913 / 900000))
     \<and> generatedOtp (fst (auth_step ?s (ResendOtp (382913 / 900000)))) = generatedOtp ?s"
    by (simp add: auth_eval)
  ultimately show ?thesis by blast
qed

end
