(* ===== verification/Dashboard.thy ===== *)
theory Dashboard
  imports Auth
begin

text \<open>
  The root page \<open>Dashboard\<close> of \<open>src/app/page.tsx\<close> and the session store it reads.
  The store (\<open>useAuthStore\<close> of \<open>lib/store\<close>, outside \<open>src/\<close>) is modelled from the
  spec's interface: \<open>login(user)\<close> records the user and marks the session authenticated.
  The page has two code paths over the same store state: the effect (lines 17--32) that
  redirects, and the render (lines 34--86) that chooses what to show. \<open>apply_effects\<close>
  runs the calls of the login page against the store and the router. The lemmas show that
  the two code paths of the dashboard agree, and what each role sees.
\<close>

record auth_store =
  isAuthenticated :: bool
  store_user :: "user option"

definition store_init :: auth_store where
  "store_init = \<lparr>isAuthenticated = False, store_user = None\<rparr>"

definition store_login :: "user \<Rightarrow> auth_store \<Rightarrow> auth_store" where
  "store_login u st = st\<lparr>isAuthenticated := True, store_user := Some u\<rparr>"

text \<open>What the render shows: a loading screen, a redirect notice, or the admin dashboard greeting the user by name.\<close>

datatype dashboard_view = LoadingView | RedirectingView | AdminView js_string

text \<open>The effect of lines 17--32: the path \<open>router.replace\<close> is called with, if any.\<close>

definition dashboard_redirect :: "auth_store \<Rightarrow> js_string option" where
  "dashboard_redirect st =
     (case store_user st of
        None \<Rightarrow> Some ''/login''
      | Some u \<Rightarrow>
          (if \<not> isAuthenticated st then Some ''/login''
           else if u_role u = Teacher then Some ''/teacher/dashboard''
           else if u_role u = Parent then Some ''/parent/dashboard''
           else None))"

text \<open>The render of lines 34--86.\<close>

definition dashboard_view :: "auth_store \<Rightarrow> dashboard_view" where
  "dashboard_view st =
     (case store_user st of
        None \<Rightarrow> LoadingView
      | Some u \<Rightarrow>
          (if \<not> isAuthenticated st then LoadingView
           else if u_role u \<noteq> Admin then RedirectingView
           else AdminView (u_name u)))"

text \<open>The calls of the login page run against the store and the router (the pushed paths, in order).\<close>

fun apply_effects :: "auth_store \<Rightarrow> effect list \<Rightarrow> auth_store \<times> js_string list" where
  "apply_effects st [] = (st, [])"
| "apply_effects st (Login u # effs) = apply_effects (store_login u st) effs"
| "apply_effects st (Push p # effs) =
     (case apply_effects st effs of (st', ps) \<Rightarrow> (st', p # ps))"

subsection \<open>Lemmas\<close>

lemma dashboard_store_login [simp]:
  "dashboard_redirect (store_login u st) =
     (if u_role u = Teacher then Some ''/teacher/dashboard''
      else if u_role u = Parent then Some ''/parent/dashboard'' else None)"
  "dashboard_view (store_login u st) = (if u_role u \<noteq> Admin then RedirectingView else AdminView (u_name u))"
  by (simp_all add: store_login_def dashboard_redirect_def dashboard_view_def)

text \<open>
  C20: the redirect effect and the render of the dashboard agree on every store state: no
  redirect exactly when the admin dashboard is rendered, a redirect to the login page exactly
  when the loading screen is rendered, and a redirect to a role dashboard exactly when the
  redirect notice is rendered.
\<close>

theorem dashboard_effect_render_agree:
  "(dashboard_redirect st = None \<longleftrightarrow> (\<exists>n. dashboard_view st = AdminView n))
   \<and> (dashboard_redirect st = Some ''/login'' \<longleftrightarrow> dashboard_view st = LoadingView)
   \<and> (dashboard_view st = RedirectingView \<longleftrightarrow>
        dashboard_redirect st \<in> {Some ''/teacher/dashboard'', Some ''/parent/dashboard''})"
proof (cases "store_user st")
  case None
  then show ?thesis by (simp add: dashboard_redirect_def dashboard_view_def)
next
  case (Some u)
  then show ?thesis by (cases "u_role u") (simp_all add: dashboard_redirect_def dashboard_view_def)
qed

end
