(* ===== verification/Settings.thy ===== *)
theory Settings
  imports Prelude
begin

text \<open>
  The settings page \<open>SettingsPage\<close> of \<open>src/app/settings/page.tsx\<close>: its state
  (lines 91--134), its handlers (lines 137--266), the inline handlers of its controls and
  of the \<open>Modal\<close> component (lines 39--87, 270--890). Handlers are functions from the
  state to the new state and the list of outside effects: \<open>alert\<close>, the transient toast
  element a \<open>setTimeout\<close> callback appends to the document, \<open>URL.revokeObjectURL\<close>,
  and the clearing of the file input. The 900 ms timer of the profile save changes state, so
  its callback is an event of its own (\<open>SSaveTimer\<close>), with the number of pending timers
  in the state; the 200 ms toasts only write to the document and are emitted at once.
  \<open>Date.now()\<close> and \<open>URL.createObjectURL(file)\<close> are event inputs. A \<open>Button\<close>
  inside the profile \<open>form\<close> without a \<open>type\<close> is a submit button (the HTML default), so
  the photo buttons also submit the profile form. The theme switches call the theme store,
  which is outside \<open>src/\<close>, and are not modelled.
\<close>

subsection \<open>Data\<close>

datatype account_status = Active | Inactive

record bank_account =
  acc_id :: js_string
  acc_bank :: js_string
  acc_last4 :: js_string
  acc_status :: account_status

datatype notif_key = EmiReminders | Refinancing | PaymentConfirmations | CreditScore | MarketingEmails

record notif_prefs =
  emiReminders :: bool
  refinancing :: bool
  paymentConfirmations :: bool
  creditScore :: bool
  marketingEmails :: bool

record photo_file =
  file_name :: js_string
  file_size :: nat

text \<open>
  Calls to the outside: \<open>alert\<close>, a toast element appended by a timer callback,
  \<open>URL.revokeObjectURL\<close>, the clearing of the file input, and the two calls of the theme
  store (\<open>toggleDark\<close>, \<open>setTheme\<close>).
\<close>

datatype settings_effect =
    Alert js_string | Toast js_string | Revoke js_string | ClearFileInput
  | ToggleDark | SetTheme js_string

text \<open>Lines 24--30: the colour themes offered.\<close>

record theme_option =
  to_name :: js_string
  to_label :: js_string
  to_color :: js_string

definition themeOptions :: "theme_option list" where
  "themeOptions =
     [\<lparr>to_name = ''default'', to_label = ''Default Purple'', to_color = ''#8B5CF6''\<rparr>,
      \<lparr>to_name = ''ocean'', to_label = ''Ocean Blue'', to_color = ''#0EA5E9''\<rparr>,
      \<lparr>to_name = ''forest'', to_label = ''Forest Green'', to_color = ''#059669''\<rparr>,
      \<lparr>to_name = ''sunset'', to_label = ''Sunset Orange'', to_color = ''#EA580C''\<rparr>,
      \<lparr>to_name = ''royal'', to_label = ''Royal Purple'', to_color = ''#7C3AED''\<rparr>]"

text \<open>Lines 659--664: the values of the language select.\<close>

definition language_options :: "js_string list" where
  "language_options = [''en'', ''hi'', ''ta'', ''bn'']"

record settings_state =
  profilePhotoFile :: "photo_file option"
  profilePhotoPreview :: "js_string option"
  firstName :: js_string
  lastName :: js_string
  email :: js_string
  phone :: js_string
  isSavingProfile :: bool
  pendingSaves :: nat
  accounts :: "bank_account list"
  twoFactor :: bool
  notifications :: notif_prefs
  language :: js_string
  addAccountOpen :: bool
  removeAccountOpen :: "js_string option"
  updatePwdOpen :: bool
  deleteOpen :: bool
  newAccountBank :: js_string
  newAccountLast4 :: js_string
  currentPassword :: js_string
  newPassword :: js_string
  confirmPassword :: js_string

definition initial_accounts :: "bank_account list" where
  "initial_accounts =
     [\<lparr>acc_id = ''hdfc'', acc_bank = ''HDFC Bank'', acc_last4 = ''4521'', acc_status = Active\<rparr>,
      \<lparr>acc_id = ''icici'', acc_bank = ''ICICI Bank'', acc_last4 = ''7823'', acc_status = Active\<rparr>,
      \<lparr>acc_id = ''axis'', acc_bank = ''Axis Bank'', acc_last4 = ''2910'', acc_status = Active\<rparr>]"

definition settings_init :: settings_state where
  "settings_init =
     \<lparr>profilePhotoFile = None, profilePhotoPreview = None, firstName = ''Rajesh'', lastName = ''Kumar'',
      email = ''rajesh.kumar@email.com'', phone = ''+91 98765 43210'', isSavingProfile = False,
      pendingSaves = 0, accounts = initial_accounts, twoFactor = False,
      notifications = \<lparr>emiReminders = True, refinancing = True, paymentConfirmations = True,
                       creditScore = True, marketingEmails = False\<rparr>,
      language = ''en'', addAccountOpen = False, removeAccountOpen = None, updatePwdOpen = False,
      deleteOpen = False, newAccountBank = [], newAccountLast4 = [], currentPassword = [],
      newPassword = [], confirmPassword = []\<rparr>"

subsection \<open>Handlers\<close>

text \<open>Lines 137--143 (not wired to any control).\<close>

definition handleLogoUpload :: "photo_file option \<Rightarrow> js_string \<Rightarrow> settings_state \<Rightarrow> settings_state" where
  "handleLogoUpload fopt url s =
     (case fopt of None \<Rightarrow> s | Some f \<Rightarrow> s\<lparr>profilePhotoFile := Some f, profilePhotoPreview := Some url\<rparr>)"

text \<open>Lines 145--165: \<open>url\<close> is the fresh \<open>URL.createObjectURL(file)\<close>.\<close>

definition handleProfilePhotoChange ::
  "photo_file option \<Rightarrow> js_string \<Rightarrow> settings_state \<Rightarrow> settings_state \<times> settings_effect list" where
  "handleProfilePhotoChange fopt url s =
     (case fopt of
        None \<Rightarrow> (s, [])
      | Some f \<Rightarrow>
          (if 2 * 1024 * 1024 < file_size f
           then (s, [Alert ''File too large. Max size is 2MB.'', ClearFileInput])
           else (s\<lparr>profilePhotoFile := Some f, profilePhotoPreview := Some url\<rparr>,
                 (case profilePhotoPreview s of Some p \<Rightarrow> [Revoke p] | None \<Rightarrow> []))))"

text \<open>Lines 167--173 (not wired); the inline \<open>Remove\<close> handler of lines 341--352.\<close>

definition handleRemoveProfilePhoto :: "settings_state \<Rightarrow> settings_state \<times> settings_effect list" where
  "handleRemoveProfilePhoto s =
     (case profilePhotoPreview s of
        None \<Rightarrow> (s\<lparr>profilePhotoFile := None\<rparr>, [])
      | Some p \<Rightarrow> (s\<lparr>profilePhotoFile := None, profilePhotoPreview := None\<rparr>, [Revoke p]))"

definition removePhotoClick :: "settings_state \<Rightarrow> settings_state \<times> settings_effect list" where
  "removePhotoClick s =
     (case profilePhotoPreview s of
        None \<Rightarrow> (s\<lparr>profilePhotoFile := None\<rparr>, [ClearFileInput])
      | Some p \<Rightarrow> (s\<lparr>profilePhotoFile := None, profilePhotoPreview := None\<rparr>, [Revoke p, ClearFileInput]))"

text \<open>Lines 176--195; \<open>now\<close> is \<open>Date.now()\<close>.\<close>

definition account_slug :: "js_string \<Rightarrow> nat \<Rightarrow> js_string" where
  "account_slug bank now = replace_ws_runs (js_toLowerCase bank) @ ''-'' @ nat_to_string now"

definition handleAddAccountSubmit :: "nat \<Rightarrow> settings_state \<Rightarrow> settings_state" where
  "handleAddAccountSubmit now s =
     (if newAccountBank s = [] \<or> newAccountLast4 s = [] then s
      else s\<lparr>accounts := accounts s @
                [\<lparr>acc_id = account_slug (newAccountBank s) now, acc_bank = js_trim (newAccountBank s),
                  acc_last4 = js_slice_last 4 (newAccountLast4 s), acc_status = Active\<rparr>],
             newAccountBank := [], newAccountLast4 := [], addAccountOpen := False\<rparr>)"

text \<open>Lines 197--200.\<close>

definition handleRemoveAccountConfirm :: "js_string \<Rightarrow> settings_state \<Rightarrow> settings_state" where
  "handleRemoveAccountConfirm i s =
     s\<lparr>accounts := filter (\<lambda>a. acc_id a \<noteq> i) (accounts s), removeAccountOpen := None\<rparr>"

text \<open>Lines 203--226.\<close>

definition handleUpdatePasswordSubmit :: "settings_state \<Rightarrow> settings_state \<times> settings_effect list" where
  "handleUpdatePasswordSubmit s =
     (if currentPassword s = [] \<or> newPassword s = [] \<or> confirmPassword s = []
      then (s, [Alert ''Please fill all fields.''])
      else if length (newPassword s) < 8
      then (s, [Alert ''Password must be at least 8 characters.''])
      else if newPassword s \<noteq> confirmPassword s
      then (s, [Alert ''Passwords do not match.''])
      else (s\<lparr>currentPassword := [], newPassword := [], confirmPassword := [], updatePwdOpen := False\<rparr>,
            [Toast ''Password updated'']))"

text \<open>Lines 228--238.\<close>

definition handleDeleteAccountConfirm :: "settings_state \<Rightarrow> settings_state \<times> settings_effect list" where
  "handleDeleteAccountConfirm s = (s\<lparr>deleteOpen := False\<rparr>, [Toast ''Account deleted (demo)''])"

text \<open>Lines 240--241: \<open>{...s, [key]: !s[key]}\<close>.\<close>

fun toggle_notif :: "notif_key \<Rightarrow> notif_prefs \<Rightarrow> notif_prefs" where
  "toggle_notif EmiReminders n = n\<lparr>emiReminders := \<not> emiReminders n\<rparr>"
| "toggle_notif Refinancing n = n\<lparr>refinancing := \<not> refinancing n\<rparr>"
| "toggle_notif PaymentConfirmations n = n\<lparr>paymentConfirmations := \<not> paymentConfirmations n\<rparr>"
| "toggle_notif CreditScore n = n\<lparr>creditScore := \<not> creditScore n\<rparr>"
| "toggle_notif MarketingEmails n = n\<lparr>marketingEmails := \<not> marketingEmails n\<rparr>"

fun notif_value :: "notif_key \<Rightarrow> notif_prefs \<Rightarrow> bool" where
  "notif_value EmiReminders n = emiReminders n"
| "notif_value Refinancing n = refinancing n"
| "notif_value PaymentConfirmations n = paymentConfirmations n"
| "notif_value CreditScore n = creditScore n"
| "notif_value MarketingEmails n = marketingEmails n"

definition toggleNotification :: "notif_key \<Rightarrow> settings_state \<Rightarrow> settings_state" where
  "toggleNotification k s = s\<lparr>notifications := toggle_notif k (notifications s)\<rparr>"

text \<open>Lines 248--266: validation, then the saving flag and a 900 ms timer.\<close>

definition handleSaveProfile :: "settings_state \<Rightarrow> settings_state \<times> settings_effect list" where
  "handleSaveProfile s =
     (if js_trim (firstName s) = [] \<or> js_trim (lastName s) = [] \<or> js_trim (email s) = []
      then (s, [Alert ''Please fill name and email.''])
      else (s\<lparr>isSavingProfile := True, pendingSaves := Suc (pendingSaves s)\<rparr>, []))"

definition saveTimerFires :: "settings_state \<Rightarrow> settings_state \<times> settings_effect list" where
  "saveTimerFires s = (s\<lparr>isSavingProfile := False, pendingSaves := pendingSaves s - 1\<rparr>, [Toast ''Profile saved''])"

text \<open>Lines 785--788: \<open>e.target.value.replace(/\D/g, "").slice(0, 4)\<close>.\<close>

definition sanitize_last4 :: "js_string \<Rightarrow> js_string" where
  "sanitize_last4 v = take 4 (filter is_digit v)"

subsection \<open>What the page shows\<close>

text \<open>Lines 304--314: the preview image, or the initials \<open>firstName?.[0] ?? ""\<close> and
  \<open>lastName?.[0] ?? ""\<close> (indexing an empty string gives \<open>undefined\<close>).\<close>

datatype avatar_view = AvatarImage js_string | AvatarInitials js_string

definition profile_initials :: "settings_state \<Rightarrow> js_string" where
  "profile_initials s = take 1 (firstName s) @ take 1 (lastName s)"

definition avatar_view :: "settings_state \<Rightarrow> avatar_view" where
  "avatar_view s =
     (case profilePhotoPreview s of Some u \<Rightarrow> AvatarImage u | None \<Rightarrow> AvatarInitials (profile_initials s))"

text \<open>Lines 409--411.\<close>

definition save_button_label :: "settings_state \<Rightarrow> js_string" where
  "save_button_label s = (if isSavingProfile s then ''Saving...'' else ''Save Changes'')"

text \<open>
  Lines 443--447: \<open>bank.split(" ").slice(0, 2).map((p) => p[0]).join("")\<close>; the first
  character of an empty piece is \<open>undefined\<close>, which \<open>join\<close> writes as the empty string.
\<close>

definition bank_initials :: "js_string \<Rightarrow> js_string" where
  "bank_initials bank = concat (map (take 1) (take 2 (split_on CHR '' '' bank)))"

record account_view =
  av_initials :: js_string
  av_bank :: js_string
  av_badge :: js_string
  av_number :: js_string

text \<open>Lines 436--502: one row per linked account.\<close>

definition account_row :: "bank_account \<Rightarrow> account_view" where
  "account_row acc =
     \<lparr>av_initials = bank_initials (acc_bank acc), av_bank = acc_bank acc,
      av_badge = (if acc_status acc = Active then ''active'' else ''inactive''),
      av_number = ''****'' @ acc_last4 acc\<rparr>"

definition account_rows :: "settings_state \<Rightarrow> account_view list" where
  "account_rows s = map account_row (accounts s)"

text \<open>Lines 700--707: a theme button is marked while its theme is the store's current one.\<close>

definition theme_selected :: "js_string \<Rightarrow> theme_option \<Rightarrow> bool" where
  "theme_selected theme opt \<longleftrightarrow> theme = to_name opt"

subsection \<open>Events, their availability, and the step function\<close>

datatype settings_event =
    SChangePhoto "photo_file option" js_string | SClickChangePhoto | SRemovePhoto
  | STypeFirstName js_string | STypeLastName js_string | STypeEmail js_string | STypePhone js_string
  | SSaveProfile | SSaveTimer
  | SOpenAddAccount | SCloseAddAccount | STypeBank js_string | STypeLast4 js_string | SAddAccount nat
  | SAskRemove js_string | SCloseRemove | SConfirmRemove
  | SSetTwoFactor bool | SOpenUpdatePwd | SCloseUpdatePwd
  | STypeCurrentPwd js_string | STypeNewPwd js_string | STypeConfirmPwd js_string | SUpdatePwd
  | SToggleNotif notif_key | SSetLanguage js_string | SToggleDark | SSetTheme js_string
  | SOpenDelete | SCloseDelete | SConfirmDelete | SEscape

definition any_modal_open :: "settings_state \<Rightarrow> bool" where
  "any_modal_open s \<longleftrightarrow> addAccountOpen s \<or> removeAccountOpen s \<noteq> None \<or> updatePwdOpen s \<or> deleteOpen s"

text \<open>Lines 64--86: \<open>Modal\<close> renders nothing while closed, and its dialog with the title while open.\<close>

definition modal_render :: "bool \<Rightarrow> js_string \<Rightarrow> js_string option" where
  "modal_render isOpen title = (if isOpen then Some title else None)"

text \<open>Lines 756--886: the four dialogs of the page, by title, that are on screen.\<close>

definition dialogs_shown :: "settings_state \<Rightarrow> js_string list" where
  "dialogs_shown s =
     List.map_filter id
       [modal_render (addAccountOpen s) ''Add Bank Account'',
        modal_render (removeAccountOpen s \<noteq> None) ''Remove Linked Account'',
        modal_render (updatePwdOpen s) ''Update Password'',
        modal_render (deleteOpen s) ''Delete Account'']"

text \<open>
  The controls on screen in a state. The backdrop of an open \<open>Modal\<close> (lines 72--76)
  intercepts the pointer only: the dialog neither traps the focus nor makes the page inert, so
  the page's controls stay reachable from the keyboard (Tab, Enter) while a dialog is open. A
  dialog's controls exist while it is open, and \<open>Escape\<close> has a listener only then
  (lines 52--63). The save button is disabled while saving (line 409), the remove-photo button
  exists with a preview only (line 337), a row's Delete button for a listed account only, and
  the language select and the theme buttons offer their values only; the photo buttons are not
  disabled.
\<close>

fun settings_enabled :: "settings_state \<Rightarrow> settings_event \<Rightarrow> bool" where
  "settings_enabled s SRemovePhoto = (profilePhotoPreview s \<noteq> None)"
| "settings_enabled s SSaveProfile = (\<not> isSavingProfile s)"
| "settings_enabled s SSaveTimer = (0 < pendingSaves s)"
| "settings_enabled s SCloseAddAccount = addAccountOpen s"
| "settings_enabled s (STypeBank v) = addAccountOpen s"
| "settings_enabled s (STypeLast4 v) = addAccountOpen s"
| "settings_enabled s (SAddAccount now) = addAccountOpen s"
| "settings_enabled s SCloseRemove = (removeAccountOpen s \<noteq> None)"
| "settings_enabled s SConfirmRemove = (removeAccountOpen s \<noteq> None)"
| "settings_enabled s SCloseUpdatePwd = updatePwdOpen s"
| "settings_enabled s SUpdatePwd = updatePwdOpen s"
| "settings_enabled s SCloseDelete = deleteOpen s"
| "settings_enabled s SConfirmDelete = deleteOpen s"
| "settings_enabled s SEscape = any_modal_open s"
| "settings_enabled s (SAskRemove i) = (i \<in> set (map acc_id (accounts s)))"
| "settings_enabled s (SSetLanguage v) = (v \<in> set language_options)"
| "settings_enabled s (SSetTheme n) = (n \<in> set (map to_name themeOptions))"
| "settings_enabled s e = True"

text \<open>\<open>Escape\<close> calls \<open>onClose\<close> of every open modal (lines 52--63).\<close>

definition close_all_modals :: "settings_state \<Rightarrow> settings_state" where
  "close_all_modals s =
     s\<lparr>addAccountOpen := False, removeAccountOpen := None, updatePwdOpen := False, deleteOpen := False\<rparr>"

text \<open>The four \<open>Modal\<close> dialogs, lines 756--886: their controls, \<open>Escape\<close> and the backdrop.\<close>

fun is_modal_event :: "settings_event \<Rightarrow> bool" where
  "is_modal_event SCloseAddAccount = True"
| "is_modal_event (STypeBank v) = True"
| "is_modal_event (STypeLast4 v) = True"
| "is_modal_event (SAddAccount now) = True"
| "is_modal_event SCloseRemove = True"
| "is_modal_event SConfirmRemove = True"
| "is_modal_event SCloseUpdatePwd = True"
| "is_modal_event SUpdatePwd = True"
| "is_modal_event SCloseDelete = True"
| "is_modal_event SConfirmDelete = True"
| "is_modal_event SEscape = True"
| "is_modal_event e = False"

fun modal_step :: "settings_state \<Rightarrow> settings_event \<Rightarrow> settings_state \<times> settings_effect list" where
  "modal_step s SCloseAddAccount = (s\<lparr>addAccountOpen := False\<rparr>, [])"
| "modal_step s (STypeBank v) = (s\<lparr>newAccountBank := v\<rparr>, [])"
| "modal_step s (STypeLast4 v) = (s\<lparr>newAccountLast4 := sanitize_last4 v\<rparr>, [])"
| "modal_step s (SAddAccount now) = (handleAddAccountSubmit now s, [])"
| "modal_step s SCloseRemove = (s\<lparr>removeAccountOpen := None\<rparr>, [])"
| "modal_step s SConfirmRemove =
     (case removeAccountOpen s of None \<Rightarrow> (s, []) | Some i \<Rightarrow> (handleRemoveAccountConfirm i s, []))"
| "modal_step s SCloseUpdatePwd = (s\<lparr>updatePwdOpen := False\<rparr>, [])"
| "modal_step s SUpdatePwd = handleUpdatePasswordSubmit s"
| "modal_step s SCloseDelete = (s\<lparr>deleteOpen := False\<rparr>, [])"
| "modal_step s SConfirmDelete = handleDeleteAccountConfirm s"
| "modal_step s SEscape = (close_all_modals s, [])"
| "modal_step s e = (s, [])"

text \<open>The cards of the page, in the order the page renders them (lines 278--753).\<close>

datatype page_card =
  ProfileCard | AccountsCard | SecurityCard | NotificationsCard | PreferencesCard | DangerCard | NoCard

fun card_of :: "settings_event \<Rightarrow> page_card" where
  "card_of (SChangePhoto f u) = ProfileCard"
| "card_of SClickChangePhoto = ProfileCard"
| "card_of SRemovePhoto = ProfileCard"
| "card_of (STypeFirstName v) = ProfileCard"
| "card_of (STypeLastName v) = ProfileCard"
| "card_of (STypeEmail v) = ProfileCard"
| "card_of (STypePhone v) = ProfileCard"
| "card_of SSaveProfile = ProfileCard"
| "card_of SSaveTimer = ProfileCard"
| "card_of SOpenAddAccount = AccountsCard"
| "card_of (SAskRemove i) = AccountsCard"
| "card_of (SSetTwoFactor b) = SecurityCard"
| "card_of SOpenUpdatePwd = SecurityCard"
| "card_of (STypeCurrentPwd v) = SecurityCard"
| "card_of (STypeNewPwd v) = SecurityCard"
| "card_of (STypeConfirmPwd v) = SecurityCard"
| "card_of (SToggleNotif k) = NotificationsCard"
| "card_of (SSetLanguage v) = PreferencesCard"
| "card_of SToggleDark = PreferencesCard"
| "card_of (SSetTheme n) = PreferencesCard"
| "card_of SOpenDelete = DangerCard"
| "card_of e = NoCard"

text \<open>The profile card, lines 278--415, and the callback of its save timer (lines 257--266).\<close>

fun profile_step :: "settings_state \<Rightarrow> settings_event \<Rightarrow> settings_state \<times> settings_effect list" where
  "profile_step s (SChangePhoto f u) = handleProfilePhotoChange f u s"
| "profile_step s SClickChangePhoto = handleSaveProfile s"
| "profile_step s SRemovePhoto =
     (case removePhotoClick s of (t, effs) \<Rightarrow> (case handleSaveProfile t of (t', effs') \<Rightarrow> (t', effs @ effs')))"
| "profile_step s (STypeFirstName v) = (s\<lparr>firstName := v\<rparr>, [])"
| "profile_step s (STypeLastName v) = (s\<lparr>lastName := v\<rparr>, [])"
| "profile_step s (STypeEmail v) = (s\<lparr>email := v\<rparr>, [])"
| "profile_step s (STypePhone v) = (s\<lparr>phone := v\<rparr>, [])"
| "profile_step s SSaveProfile = handleSaveProfile s"
| "profile_step s SSaveTimer = saveTimerFires s"
| "profile_step s e = (s, [])"

text \<open>The linked accounts card, lines 420--505.\<close>

fun accounts_step :: "settings_state \<Rightarrow> settings_event \<Rightarrow> settings_state \<times> settings_effect list" where
  "accounts_step s SOpenAddAccount = (s\<lparr>addAccountOpen := True\<rparr>, [])"
| "accounts_step s (SAskRemove i) = (s\<lparr>removeAccountOpen := Some i\<rparr>, [])"
| "accounts_step s e = (s, [])"

text \<open>The security card, lines 507--567.\<close>

fun security_step :: "settings_state \<Rightarrow> settings_event \<Rightarrow> settings_state \<times> settings_effect list" where
  "security_step s (SSetTwoFactor b) = (s\<lparr>twoFactor := b\<rparr>, [])"
| "security_step s SOpenUpdatePwd = (s\<lparr>updatePwdOpen := True\<rparr>, [])"
| "security_step s (STypeCurrentPwd v) = (s\<lparr>currentPassword := v\<rparr>, [])"
| "security_step s (STypeNewPwd v) = (s\<lparr>newPassword := v\<rparr>, [])"
| "security_step s (STypeConfirmPwd v) = (s\<lparr>confirmPassword := v\<rparr>, [])"
| "security_step s e = (s, [])"

text \<open>The notifications card, lines 569--643.\<close>

fun notifications_step :: "settings_state \<Rightarrow> settings_event \<Rightarrow> settings_state \<times> settings_effect list" where
  "notifications_step s (SToggleNotif k) = (toggleNotification k s, [])"
| "notifications_step s e = (s, [])"

text \<open>The language and theme cards, lines 645--729.\<close>

fun preferences_step :: "settings_state \<Rightarrow> settings_event \<Rightarrow> settings_state \<times> settings_effect list" where
  "preferences_step s (SSetLanguage v) = (s\<lparr>language := v\<rparr>, [])"
| "preferences_step s SToggleDark = (s, [ToggleDark])"
| "preferences_step s (SSetTheme n) = (s, [SetTheme n])"
| "preferences_step s e = (s, [])"

text \<open>The danger zone, lines 730--753.\<close>

fun danger_step :: "settings_state \<Rightarrow> settings_event \<Rightarrow> settings_state \<times> settings_effect list" where
  "danger_step s SOpenDelete = (s\<lparr>deleteOpen := True\<rparr>, [])"
| "danger_step s e = (s, [])"

text \<open>The controls of the page itself: the card that renders the control handles the event.\<close>

definition page_step :: "settings_state \<Rightarrow> settings_event \<Rightarrow> settings_state \<times> settings_effect list" where
  "page_step s e =
     (case card_of e of
        ProfileCard \<Rightarrow> profile_step s e
      | AccountsCard \<Rightarrow> accounts_step s e
      | SecurityCard \<Rightarrow> security_step s e
      | NotificationsCard \<Rightarrow> notifications_step s e
      | PreferencesCard \<Rightarrow> preferences_step s e
      | DangerCard \<Rightarrow> danger_step s e
      | NoCard \<Rightarrow> (s, []))"

definition settings_step :: "settings_state \<Rightarrow> settings_event \<Rightarrow> settings_state \<times> settings_effect list" where
  "settings_step s e = (if is_modal_event e then modal_step s e else page_step s e)"

text \<open>A session on the page: the enabled events in order, with the calls they make.\<close>

fun settings_run :: "settings_state \<Rightarrow> settings_event list \<Rightarrow> (settings_state \<times> settings_effect list) option" where
  "settings_run s [] = Some (s, [])"
| "settings_run s (e # es) =
     (if settings_enabled s e
      then (case settings_step s e of
              (t, effs) \<Rightarrow> map_option (\<lambda>(u, effs'). (u, effs @ effs')) (settings_run t es))
      else None)"

inductive settings_reachable :: "settings_state \<Rightarrow> bool" where
  init: "settings_reachable settings_init"
| reach: "settings_reachable s \<Longrightarrow> settings_enabled s e \<Longrightarrow> settings_step s e = (t, effs) \<Longrightarrow>
     settings_reachable t"

subsection \<open>The invariant\<close>

text \<open>
  Every account number shown, and the one typed in the add dialog, is at most four digits
  (the input filter of lines 785--788 and the \<open>slice(-4)\<close> of line 188); a running
  save has a pending timer; the language is one of the values of the select.
\<close>

definition last4_ok :: "js_string \<Rightarrow> bool" where
  "last4_ok v \<longleftrightarrow> length v \<le> 4 \<and> (\<forall>c \<in> set v. is_digit c)"

definition settings_inv :: "settings_state \<Rightarrow> bool" where
  "settings_inv s \<longleftrightarrow> (\<forall>a \<in> set (accounts s). last4_ok (acc_last4 a))
     \<and> last4_ok (newAccountLast4 s) \<and> (isSavingProfile s \<longrightarrow> 0 < pendingSaves s)
     \<and> language s \<in> set language_options"

subsection \<open>Lemmas\<close>

text \<open>A step is the page's or a dialog's, by the event.\<close>

declare settings_step_def [simp] page_step_def [simp]

fun_cases settings_run_ConsE: "settings_run s (e # es) = Some r"

lemma last4_ok_Nil [simp]: "last4_ok []"
  by (simp add: last4_ok_def)

lemma last4_ok_sanitize [simp]: "last4_ok (sanitize_last4 v)"
  by (auto simp: last4_ok_def sanitize_last4_def dest: in_set_takeD)

lemma last4_ok_slice: "last4_ok v \<Longrightarrow> last4_ok (js_slice_last 4 v)"
  using set_js_slice_last [of 4 v] by (auto simp: last4_ok_def)

lemma settings_inv_init: "settings_inv settings_init"
  by (simp add: settings_inv_def settings_init_def initial_accounts_def last4_ok_def is_digit_def
      language_options_def)

lemma settings_inv_frame:
  "settings_inv s \<Longrightarrow> language t = language s \<Longrightarrow> accounts t = accounts s \<Longrightarrow>
   newAccountLast4 t = newAccountLast4 s \<Longrightarrow> isSavingProfile t = isSavingProfile s \<Longrightarrow>
   pendingSaves t = pendingSaves s \<Longrightarrow> settings_inv t"
  by (simp add: settings_inv_def)

lemma inv_handleSaveProfile: "settings_inv s \<Longrightarrow> settings_inv (fst (handleSaveProfile s))"
  by (simp add: handleSaveProfile_def settings_inv_def)

lemma inv_removePhotoClick: "settings_inv s \<Longrightarrow> settings_inv (fst (removePhotoClick s))"
  by (erule settings_inv_frame) (simp_all add: removePhotoClick_def split: option.splits)

lemma inv_handleProfilePhotoChange: "settings_inv s \<Longrightarrow> settings_inv (fst (handleProfilePhotoChange f u s))"
  by (erule settings_inv_frame) (simp_all add: handleProfilePhotoChange_def split: option.splits)

lemma inv_handleAddAccountSubmit: "settings_inv s \<Longrightarrow> addAccountOpen s \<Longrightarrow> settings_inv (handleAddAccountSubmit now s)"
  by (auto simp: handleAddAccountSubmit_def settings_inv_def last4_ok_slice)

lemma inv_handleRemoveAccountConfirm:
  "settings_inv s \<Longrightarrow> removeAccountOpen s \<noteq> None \<Longrightarrow> settings_inv (handleRemoveAccountConfirm i s)"
  by (auto simp: handleRemoveAccountConfirm_def settings_inv_def)

lemma inv_handleUpdatePasswordSubmit:
  "settings_inv s \<Longrightarrow> updatePwdOpen s \<Longrightarrow> settings_inv (fst (handleUpdatePasswordSubmit s))"
  by (auto simp: handleUpdatePasswordSubmit_def settings_inv_def)

lemma settings_step_inv_fst:
  assumes inv: "settings_inv s" and en: "settings_enabled s e"
  shows "settings_inv (fst (settings_step s e))"
proof (cases e)
  case SRemovePhoto
  have "settings_inv (fst (removePhotoClick s))" using inv by (rule inv_removePhotoClick)
  then have "settings_inv (fst (handleSaveProfile (fst (removePhotoClick s))))" by (rule inv_handleSaveProfile)
  with SRemovePhoto show ?thesis by (simp add: case_prod_unfold)
next
  case SSaveTimer
  with inv en show ?thesis by (simp add: saveTimerFires_def settings_inv_def)
next
  case SEscape
  with inv show ?thesis by (simp add: close_all_modals_def settings_inv_def)
next
  case (SChangePhoto f u)
  with inv show ?thesis by (simp add: inv_handleProfilePhotoChange)
next
  case SClickChangePhoto
  with inv show ?thesis by (simp add: inv_handleSaveProfile)
next
  case SSaveProfile
  with inv show ?thesis by (simp add: inv_handleSaveProfile)
next
  case (SAddAccount now)
  with inv en show ?thesis by (simp add: inv_handleAddAccountSubmit)
next
  case SConfirmRemove
  with inv en show ?thesis by (auto simp: inv_handleRemoveAccountConfirm)
next
  case SUpdatePwd
  with inv en show ?thesis by (simp add: inv_handleUpdatePasswordSubmit)
next
  case (STypeLast4 v)
  with inv show ?thesis by (simp add: settings_inv_def)
qed (use inv en in \<open>simp_all add: settings_inv_def any_modal_open_def
       toggleNotification_def handleDeleteAccountConfirm_def\<close>)

lemma settings_step_inv: "settings_inv s \<Longrightarrow> settings_enabled s e \<Longrightarrow> settings_step s e = (t, effs) \<Longrightarrow> settings_inv t"
  using settings_step_inv_fst [of s e] by simp

lemma settings_reachable_inv: "settings_reachable s \<Longrightarrow> settings_inv s"
  by (induction rule: settings_reachable.induct) (auto intro: settings_inv_init settings_step_inv)

lemma settings_reachable_fst:
  "settings_reachable s \<Longrightarrow> settings_enabled s e \<Longrightarrow> settings_reachable (fst (settings_step s e))"
  by (rule settings_reachable.reach [of s e _ "snd (settings_step s e)"]) simp_all

lemma settings_run_reachable:
  "settings_reachable s \<Longrightarrow> settings_run s es = Some (t, effs) \<Longrightarrow> settings_reachable t"
proof (induction es arbitrary: s effs)
  case Nil
  then show ?case by simp
next
  case (Cons e es)
  obtain effs1 where en: "settings_enabled s e"
    and rest: "settings_run (fst (settings_step s e)) es = Some (t, effs1)"
    using Cons.prems(2) by (auto elim!: settings_run_ConsE split: if_splits prod.splits)
  from Cons.prems(1) en have "settings_reachable (fst (settings_step s e))"
    by (rule settings_reachable_fst)
  then show ?case using rest by (rule Cons.IH)
qed

lemma account_slug_no_space: "\<forall>c \<in> set (account_slug bank now). \<not> is_js_space c"
  by (auto simp: account_slug_def is_js_space_def dest: replace_ws_runs_no_space nat_to_string_no_space)

end
