(* ===== verification/Settings_Properties.thy ===== *)
theory Settings_Properties
  imports Settings
begin

text \<open>
  The properties of the settings page model of theory \<open>Settings\<close>: its invariant over
  the reachable states, the behaviour of the handlers on every branch, errors included, round
  trips of the account list and the notification switches, the refinement of an abstract
  account contract, that every profile save finishes, and sessions that exhibit behaviour the
  code does not intend (duplicate account ids, a double save, a blank bank name, two dialogs
  on screen at once).
\<close>

text \<open>
  The contract of the linked accounts, as an abstract store: a step keeps the list, appends
  one active account whose number is at most four digits and whose id holds no white space,
  or removes every account with a given id.
\<close>

inductive accounts_spec :: "bank_account list \<Rightarrow> bank_account list \<Rightarrow> bool" where
  keep: "accounts_spec as as"
| add: "acc_status a = Active \<Longrightarrow> last4_ok (acc_last4 a) \<Longrightarrow> \<not> list_ex is_js_space (acc_id a) \<Longrightarrow>
        accounts_spec as (as @ [a])"
| remove: "accounts_spec as (filter (\<lambda>a. acc_id a \<noteq> i) as)"

code_pred accounts_spec .

lemmas settings_eval = settings_init_def initial_accounts_def any_modal_open_def handleSaveProfile_def
  saveTimerFires_def handleAddAccountSubmit_def js_trim_def is_js_space_def sanitize_last4_def is_digit_def
  digit_char_def

lemma saveTimers_run:
  "pendingSaves s = n \<Longrightarrow>
   settings_run s (replicate n SSaveTimer) =
     Some (s\<lparr>isSavingProfile := (isSavingProfile s \<and> n = 0), pendingSaves := 0\<rparr>,
           replicate n (Toast ''Profile saved''))"
proof (induction n arbitrary: s)
  case 0
  then show ?case by simp
next
  case (Suc m)
  let ?t = "s\<lparr>isSavingProfile := False, pendingSaves := m\<rparr>"
  have "settings_run ?t (replicate m SSaveTimer) =
      Some (?t\<lparr>isSavingProfile := False, pendingSaves := 0\<rparr>, replicate m (Toast ''Profile saved''))"
    using Suc.IH [of ?t] by simp
  with Suc.prems show ?case by (simp add: saveTimerFires_def)
qed

subsection \<open>Properties of the settings page\<close>

text \<open>
  C21: in every reachable state of the settings page every linked account shows an account
  number of at most four digits, and while the save button reads \<open>Saving...\<close> a save
  timer is pending.
\<close>

theorem reachable_settings_inv:
  "settings_reachable s \<Longrightarrow>
   (\<forall>a \<in> set (accounts s). last4_ok (acc_last4 a)) \<and> (isSavingProfile s \<longrightarrow> 0 < pendingSaves s)"
  using settings_reachable_inv [of s] by (simp add: settings_inv_def)

theorem reachable_settings_inv_witness:
  "list_all (\<lambda>a. last4_ok (acc_last4 a)) (accounts (fst (settings_step settings_init SSaveProfile)))
   \<and> 0 < pendingSaves (fst (settings_step settings_init SSaveProfile))"
proof -
  have r: "settings_reachable (fst (settings_step settings_init SSaveProfile))"
    by (rule settings_reachable_fst [OF settings_reachable.init]) (simp add: settings_eval)
  have "isSavingProfile (fst (settings_step settings_init SSaveProfile))" by (simp add: settings_eval)
  with reachable_settings_inv [OF r] show ?thesis by (simp add: list_all_iff)
qed

text \<open>
  C22: the password dialog (lines 203--226) reports success exactly when the current password
  is non-empty, the new one has at least 8 characters and the confirmation equals it; the
  current password is checked for presence only.
\<close>

theorem password_update_accepts:
  "snd (handleUpdatePasswordSubmit s) = [Toast ''Password updated''] \<longleftrightarrow>
     currentPassword s \<noteq> [] \<and> 8 \<le> length (newPassword s) \<and> newPassword s = confirmPassword s"
  by (auto simp: handleUpdatePasswordSubmit_def)

text \<open>
  C23: no event drops a profile photo preview URL without revoking it: whenever the preview
  changes away from an object URL, the step revokes that URL.
\<close>

theorem preview_revoked_when_replaced:
  "profilePhotoPreview s = Some p \<Longrightarrow> profilePhotoPreview (fst (settings_step s e)) \<noteq> Some p \<Longrightarrow>
   Revoke p \<in> set (snd (settings_step s e))"
  by (cases e) (auto simp: handleProfilePhotoChange_def removePhotoClick_def handleSaveProfile_def
      saveTimerFires_def handleAddAccountSubmit_def handleRemoveAccountConfirm_def
      handleUpdatePasswordSubmit_def handleDeleteAccountConfirm_def toggleNotification_def
      close_all_modals_def split: option.splits if_splits)

theorem preview_revoked_when_replaced_witness:
  "Revoke ''blob:1'' \<in> set (snd (settings_step (settings_init\<lparr>profilePhotoPreview := Some ''blob:1''\<rparr>) SRemovePhoto))"
  by (rule preview_revoked_when_replaced) (simp_all add: removePhotoClick_def handleSaveProfile_def settings_init_def)

text \<open>
  C24: adding an account and then removing it by its new id gives back the accounts list
  one started from, when the generated id is not already in use.
\<close>

theorem add_then_remove_account:
  "newAccountBank s \<noteq> [] \<Longrightarrow> newAccountLast4 s \<noteq> [] \<Longrightarrow>
   account_slug (newAccountBank s) now \<notin> acc_id ` set (accounts s) \<Longrightarrow>
   accounts (handleRemoveAccountConfirm (account_slug (newAccountBank s) now) (handleAddAccountSubmit now s))
     = accounts s"
  by (auto simp: handleAddAccountSubmit_def handleRemoveAccountConfirm_def filter_id_conv image_iff)

theorem add_then_remove_account_witness:
  "accounts (handleRemoveAccountConfirm (account_slug ''SBI'' 17)
     (handleAddAccountSubmit 17 (settings_init\<lparr>newAccountBank := ''SBI'', newAccountLast4 := ''0042''\<rparr>)))
   = initial_accounts"
  using add_then_remove_account [of "settings_init\<lparr>newAccountBank := ''SBI'', newAccountLast4 := ''0042''\<rparr>" 17]
  by (simp add: settings_init_def initial_accounts_def account_slug_def js_toLowerCase_def js_lower_char_def
      is_js_space_def char_of_eq_iff str_simps)

text \<open>
  C25: toggling a notification switch flips exactly that preference and leaves the others,
  and toggling it twice restores the state.
\<close>

theorem toggleNotification_flips_one:
  "notif_value k' (notifications (toggleNotification k s)) =
     (if k' = k then \<not> notif_value k' (notifications s) else notif_value k' (notifications s))
   \<and> toggleNotification k (toggleNotification k s) = s"
  by (cases k; cases k') (simp_all add: toggleNotification_def)

text \<open>
  C26: saving the profile with a first name of white space only is refused with the alert and
  changes nothing (the \<open>trim()\<close> checks of line 251).
\<close>

theorem save_profile_rejects_blank:
  "\<forall>c \<in> set (firstName s). is_js_space c \<Longrightarrow>
   handleSaveProfile s = (s, [Alert ''Please fill name and email.''])"
  by (simp add: handleSaveProfile_def js_trim_empty_iff)

theorem save_profile_rejects_blank_witness:
  "handleSaveProfile (settings_init\<lparr>firstName := ''  ''\<rparr>) =
     (settings_init\<lparr>firstName := ''  ''\<rparr>, [Alert ''Please fill name and email.''])"
  by (rule save_profile_rejects_blank) (simp add: is_js_space_def)

text \<open>
  C27: account ids are not unique: adding the same bank twice while \<open>Date.now()\<close> returns
  the same value (two adds within one millisecond, or a clock set back) gives two accounts
  with the same id (the React key of the row), and the remove dialog opened on one of them
  removes both (the filter of line 198).
\<close>

theorem duplicate_account_ids:
  "\<exists>s t. settings_reachable s \<and> 2 \<le> length (filter (\<lambda>a. acc_id a = ''sbi-7'') (accounts s))
     \<and> settings_run s [SAskRemove ''sbi-7'', SConfirmRemove] = Some (t, [])
     \<and> length (accounts t) + 2 = length (accounts s)"
proof -
  obtain s effs where run: "settings_run settings_init
      [SOpenAddAccount, STypeBank ''sbi'', STypeLast4 ''1111'', SAddAccount 7,
       SOpenAddAccount, STypeBank ''sbi'', STypeLast4 ''2222'', SAddAccount 7] = Some (s, effs)"
    and s: "2 \<le> length (filter (\<lambda>a. acc_id a = ''sbi-7'') (accounts s))
      \<and> (\<exists>t. settings_run s [SAskRemove ''sbi-7'', SConfirmRemove] = Some (t, [])
             \<and> length (accounts t) + 2 = length (accounts s))"
    by (simp add: settings_eval account_slug_def js_toLowerCase_def js_lower_char_def
        handleRemoveAccountConfirm_def str_simps)
  from settings_run_reachable [OF settings_reachable.init run] s show ?thesis by blast
qed

text \<open>
  C28: the settings page implements the account contract: in every reachable state, every
  enabled event changes the linked accounts only as \<open>accounts_spec\<close> allows (the add
  dialog appends an active account with a well-formed number and id, the remove dialog
  removes by id, every other control keeps the list).
\<close>

theorem accounts_refine_spec:
  "settings_reachable s \<Longrightarrow> settings_enabled s e \<Longrightarrow>
   accounts_spec (accounts s) (accounts (fst (settings_step s e)))"
proof -
  assume r: "settings_reachable s" and en: "settings_enabled s e"
  from r have inv: "settings_inv s" by (rule settings_reachable_inv)
  show ?thesis
  proof (cases e)
    case (SAddAccount now)
    have "last4_ok (js_slice_last 4 (newAccountLast4 s))"
      using inv by (simp add: settings_inv_def last4_ok_slice)
    moreover have "\<not> list_ex is_js_space (account_slug (newAccountBank s) now)"
      using account_slug_no_space [of "newAccountBank s" now] by (simp add: list_ex_iff)
    ultimately show ?thesis using SAddAccount
      by (auto simp: handleAddAccountSubmit_def intro: accounts_spec.intros)
  next
    case SConfirmRemove
    then show ?thesis
      by (auto simp: handleRemoveAccountConfirm_def intro: accounts_spec.intros split: option.splits)
  qed (auto simp: handleProfilePhotoChange_def removePhotoClick_def handleSaveProfile_def saveTimerFires_def
      handleUpdatePasswordSubmit_def handleDeleteAccountConfirm_def toggleNotification_def close_all_modals_def
      intro: accounts_spec.keep split: option.splits if_splits)
qed

theorem accounts_refine_spec_witness:
  "accounts_spec (accounts settings_init)
     (accounts (fst (settings_step settings_init (SAskRemove ''hdfc''))))"
  by (rule accounts_refine_spec [OF settings_reachable.init]) (simp add: settings_eval)

text \<open>
  C29: the profile save can be started twice: the photo buttons submit the profile form and are
  not disabled while saving, so a state is reachable in which the saving indicator is off while
  a save timer is still pending.
\<close>

theorem double_save_overlap:
  "\<exists>s. settings_reachable s \<and> \<not> isSavingProfile s \<and> 0 < pendingSaves s"
proof -
  obtain t effs where run: "settings_run settings_init [SSaveProfile, SClickChangePhoto, SSaveTimer] = Some (t, effs)"
    and t: "\<not> isSavingProfile t \<and> 0 < pendingSaves t"
    by (simp add: settings_eval)
  from settings_run_reachable [OF settings_reachable.init run] t show ?thesis by blast
qed

text \<open>
  C30: the add-account form accepts a bank name of blanks and a one-digit account number: a
  reachable state lists an account whose bank name is empty and whose number is \<open>7\<close>.
\<close>

theorem blank_bank_accepted:
  "\<exists>s. settings_reachable s \<and> (\<exists>a \<in> set (accounts s). acc_bank a = [] \<and> acc_last4 a = ''7'')"
proof -
  obtain t effs where run: "settings_run settings_init
      [SOpenAddAccount, STypeBank ''  '', STypeLast4 ''7'', SAddAccount 5] = Some (t, effs)"
    and t: "\<exists>a \<in> set (accounts t). acc_bank a = [] \<and> acc_last4 a = ''7''"
    by (simp add: settings_eval js_slice_last_def)
  from settings_run_reachable [OF settings_reachable.init run] t show ?thesis by blast
qed

text \<open>
  C32: choosing a profile photo (lines 145--165) enforces the 2 MB limit: when a file is chosen
  and the object URL is fresh, the URL becomes the preview exactly when the file has at most
  \<open>2 * 1024 * 1024\<close> bytes; a larger file changes nothing, alerts and clears the input;
  cancelling the file dialog changes nothing.
\<close>

theorem photo_change_size_limit:
  "profilePhotoPreview s \<noteq> Some url \<Longrightarrow>
   (profilePhotoPreview (fst (settings_step s (SChangePhoto (Some f) url))) = Some url
      \<longleftrightarrow> file_size f \<le> 2097152)
   \<and> (2097152 < file_size f \<longrightarrow>
        settings_step s (SChangePhoto (Some f) url) = (s, [Alert ''File too large. Max size is 2MB.'', ClearFileInput]))
   \<and> settings_step s (SChangePhoto None url) = (s, [])"
  by (auto simp: handleProfilePhotoChange_def)

theorem photo_change_size_limit_witness:
  "profilePhotoPreview (fst (settings_step settings_init (SChangePhoto (Some \<lparr>file_name = ''me.png'', file_size = 2097152\<rparr>) ''blob:1'')))
     = Some ''blob:1''
   \<and> settings_step settings_init (SChangePhoto (Some \<lparr>file_name = ''me.png'', file_size = 2097153\<rparr>) ''blob:1'')
     = (settings_init, [Alert ''File too large. Max size is 2MB.'', ClearFileInput])"
proof -
  have p: "profilePhotoPreview settings_init \<noteq> Some ''blob:1''" by (simp add: settings_init_def)
  from photo_change_size_limit [OF p, of "\<lparr>file_name = ''me.png'', file_size = 2097152\<rparr>"]
    photo_change_size_limit [OF p, of "\<lparr>file_name = ''me.png'', file_size = 2097153\<rparr>"]
  show ?thesis by simp
qed

text \<open>
  C35: the password dialog (lines 203--226) either succeeds, clearing the three password
  fields, closing the dialog and announcing the update, or fails with exactly one alert and
  leaves everything as it was: the dialog stays open with what was typed.
\<close>

theorem password_update_outcome:
  "updatePwdOpen s \<Longrightarrow>
   handleUpdatePasswordSubmit s =
      (s\<lparr>currentPassword := [], newPassword := [], confirmPassword := [], updatePwdOpen := False\<rparr>,
       [Toast ''Password updated''])
   \<or> (\<exists>m. handleUpdatePasswordSubmit s = (s, [Alert m]) \<and> updatePwdOpen (fst (handleUpdatePasswordSubmit s)))"
  by (simp add: handleUpdatePasswordSubmit_def)

theorem password_update_outcome_witness:
  "\<exists>m. handleUpdatePasswordSubmit (settings_init\<lparr>updatePwdOpen := True, currentPassword := ''old'',
          newPassword := ''short'', confirmPassword := ''short''\<rparr>)
        = (settings_init\<lparr>updatePwdOpen := True, currentPassword := ''old'',
          newPassword := ''short'', confirmPassword := ''short''\<rparr>, [Alert m])"
proof -
  let ?s = "settings_init\<lparr>updatePwdOpen := True, currentPassword := ''old'',
          newPassword := ''short'', confirmPassword := ''short''\<rparr>"
  have o: "updatePwdOpen ?s" by simp
  have n: "handleUpdatePasswordSubmit ?s \<noteq>
      (?s\<lparr>currentPassword := [], newPassword := [], confirmPassword := [], updatePwdOpen := False\<rparr>,
       [Toast ''Password updated''])" by (simp add: handleUpdatePasswordSubmit_def)
  from password_update_outcome [OF o] n show ?thesis by blast
qed

text \<open>
  C37: the dialogs are not modal for the keyboard: the backdrop stops the pointer only, so with
  the add-account dialog open a row's Delete button is reached by Tab and Enter and a second
  dialog opens over the first; one \<open>Escape\<close> then closes both.
\<close>

theorem keyboard_second_dialog:
  "\<exists>s. settings_reachable s \<and> dialogs_shown s = [''Add Bank Account'', ''Remove Linked Account'']
     \<and> (\<exists>t. settings_run s [SEscape] = Some (t, []) \<and> dialogs_shown t = [])"
proof -
  obtain s effs where run: "settings_run settings_init [SOpenAddAccount, SAskRemove ''hdfc''] = Some (s, effs)"
    and s: "dialogs_shown s = [''Add Bank Account'', ''Remove Linked Account'']
      \<and> (\<exists>t. settings_run s [SEscape] = Some (t, []) \<and> dialogs_shown t = [])"
    by (simp add: settings_eval dialogs_shown_def modal_render_def close_all_modals_def List.map_filter_def)
  from settings_run_reachable [OF settings_reachable.init run] s show ?thesis by blast
qed

text \<open>
  C38: the profile save always finishes: from every reachable state, the pending save timers
  fire one after the other, each shows the toast \<open>Profile saved\<close>, and afterwards no timer
  is pending, the page is not saving and the save button reads \<open>Save Changes\<close> again.
\<close>

theorem pending_saves_drain:
  "settings_reachable s \<Longrightarrow>
   \<exists>t. settings_run s (replicate (pendingSaves s) SSaveTimer)
         = Some (t, replicate (pendingSaves s) (Toast ''Profile saved''))
     \<and> pendingSaves t = 0 \<and> \<not> isSavingProfile t \<and> save_button_label t = ''Save Changes''"
proof -
  assume "settings_reachable s"
  then have "isSavingProfile s \<longrightarrow> 0 < pendingSaves s" by (simp add: settings_reachable_inv [unfolded settings_inv_def])
  then show ?thesis using saveTimers_run [of s "pendingSaves s"] by (auto simp: save_button_label_def)
qed

theorem pending_saves_drain_witness:
  "\<exists>t. settings_run (fst (settings_step settings_init SSaveProfile)) [SSaveTimer]
         = Some (t, [Toast ''Profile saved''])
     \<and> pendingSaves t = 0 \<and> \<not> isSavingProfile t \<and> save_button_label t = ''Save Changes''"
proof -
  have r: "settings_reachable (fst (settings_step settings_init SSaveProfile))"
    by (rule settings_reachable_fst [OF settings_reachable.init]) (simp add: settings_eval)
  have "pendingSaves (fst (settings_step settings_init SSaveProfile)) = 1" by (simp add: settings_eval)
  with pending_saves_drain [OF r] show ?thesis by simp
qed

text \<open>
  C39: the initials of a linked account (lines 443--447) are the first letters of the first
  two words of the bank name when the words are separated by one space; with two spaces the
  second piece of the split is empty and the row shows a single initial.
\<close>

theorem bank_initials_words:
  "w1 \<noteq> [] \<Longrightarrow> w2 \<noteq> [] \<Longrightarrow> CHR '' '' \<notin> set w1 \<Longrightarrow> CHR '' '' \<notin> set w2 \<Longrightarrow>
   bank_initials (w1 @ '' '' @ w2 @ rest) = [hd w1, hd w2]
   \<and> bank_initials (w1 @ ''  '' @ w2 @ rest) = [hd w1]"
proof -
  assume w: "w1 \<noteq> []" "w2 \<noteq> []" "CHR '' '' \<notin> set w1" "CHR '' '' \<notin> set w2"
  obtain p ps where p: "split_on CHR '' '' (w2 @ rest) = (w2 @ p) # ps"
    using split_on_prefix [OF w(4)] by blast
  have t1: "take (Suc 0) w = [hd w]" if "w \<noteq> []" for w :: js_string using that by (cases w) simp_all
  from w p show ?thesis by (simp add: bank_initials_def split_on_sep t1 Suc_le_eq)
qed

theorem bank_initials_words_witness:
  "bank_initials ''HDFC Bank'' = ''HB'' \<and> bank_initials ''HDFC  Bank'' = ''H''"
  using bank_initials_words [of "''HDFC''" "''Bank''" "[]"] by simp

end
