(* ===== verification/Locale_Format.thy ===== *)
theory Locale_Format
  imports Prelude
begin

text \<open>
  The number formatting of the dashboard widgets: \<open>Number.prototype.toLocaleString()\<close>
  for integers, with the grouping of the two locales the page can meet (\<open>en-US\<close>: groups
  of three digits; \<open>en-IN\<close>: three, then twos), \<open>String(n)\<close>, and \<open>Math.round\<close>;
  \<open>parse_locale\<close> reads a formatted number back. The lemmas prove the round trip, which the
  tooltip properties of theory \<open>Charts\<close> use.
\<close>

subsection \<open>Number formatting\<close>

definition rupee :: js_string where
  "rupee = [CHR 0xE2, CHR 0x82, CHR 0xB9]"

datatype num_locale = EnUS | EnIN

fun group3_rev :: "js_string \<Rightarrow> js_string" where
  "group3_rev (a # b # c # d # r) = a # b # c # CHR '','' # group3_rev (d # r)"
| "group3_rev r = r"

fun group2_rev :: "js_string \<Rightarrow> js_string" where
  "group2_rev (a # b # c # r) = a # b # CHR '','' # group2_rev (c # r)"
| "group2_rev r = r"

fun group_rev :: "num_locale \<Rightarrow> js_string \<Rightarrow> js_string" where
  "group_rev EnUS r = group3_rev r"
| "group_rev EnIN (a # b # c # d # r) = a # b # c # CHR '','' # group2_rev (d # r)"
| "group_rev EnIN r = r"

text \<open>\<open>n.toLocaleString()\<close> for an integer \<open>n\<close>.\<close>

definition js_toLocaleString :: "num_locale \<Rightarrow> int \<Rightarrow> js_string" where
  "js_toLocaleString loc n =
     (if n < 0 then ''-'' else []) @ rev (group_rev loc (rev (nat_to_string (nat \<bar>n\<bar>))))"

text \<open>\<open>String(n)\<close> for an integer \<open>n\<close>.\<close>

definition int_to_string :: "int \<Rightarrow> js_string" where
  "int_to_string n = (if n < 0 then ''-'' @ nat_to_string (nat (- n)) else nat_to_string (nat n))"

text \<open>Reading a formatted number back: the sign, then the digits with the separators dropped.\<close>

definition parse_locale :: "js_string \<Rightarrow> int" where
  "parse_locale s =
     (if s \<noteq> [] \<and> hd s = CHR ''-'' then - int (digits_value (filter (\<lambda>c. c \<noteq> CHR '','') (tl s)))
      else int (digits_value (filter (\<lambda>c. c \<noteq> CHR '','') s)))"

text \<open>\<open>Math.round\<close>: the nearest integer, halves rounded up.\<close>

definition js_round :: "real \<Rightarrow> int" where
  "js_round x = \<lfloor>x + 1 / 2\<rfloor>"

abbreviation no_comma :: "js_string \<Rightarrow> js_string" where
  "no_comma s \<equiv> filter (\<lambda>c. c \<noteq> CHR '','') s"


subsection \<open>Lemmas\<close>

lemma no_comma_group3_rev [simp]: "no_comma (group3_rev s) = no_comma s"
  by (induction s rule: group3_rev.induct) simp_all

lemma no_comma_group2_rev [simp]: "no_comma (group2_rev s) = no_comma s"
  by (induction s rule: group2_rev.induct) simp_all

lemma no_comma_group_rev [simp]: "no_comma (group_rev loc s) = no_comma s"
  by (induction loc s rule: group_rev.induct) simp_all

lemma no_comma_digits: "\<forall>c \<in> set s. is_digit c \<Longrightarrow> no_comma s = s"
  by (auto simp: filter_id_conv is_digit_def)

lemma no_comma_nat_to_string [simp]: "no_comma (nat_to_string n) = nat_to_string n"
  by (rule no_comma_digits) (simp add: nat_to_string_digits)


lemma last_group3_rev: "s \<noteq> [] \<Longrightarrow> group3_rev s \<noteq> [] \<and> last (group3_rev s) = last s"
  by (induction s rule: group3_rev.induct) simp_all

lemma last_group2_rev: "s \<noteq> [] \<Longrightarrow> group2_rev s \<noteq> [] \<and> last (group2_rev s) = last s"
  by (induction s rule: group2_rev.induct) simp_all

lemma last_group_rev: "s \<noteq> [] \<Longrightarrow> group_rev loc s \<noteq> [] \<and> last (group_rev loc s) = last s"
  by (induction loc s rule: group_rev.induct) (simp_all add: last_group3_rev last_group2_rev)

lemma hd_nat_to_string_digit: "is_digit (hd (nat_to_string n))"
  using nat_to_string_digits [of n] nat_to_string_nonempty [of n] by simp

lemma parse_locale_toLocaleString: "parse_locale (js_toLocaleString loc n) = n"
proof (cases "n < 0")
  case True
  then show ?thesis by (simp add: parse_locale_def js_toLocaleString_def rev_filter [symmetric] digits_value_nat_to_string)
next
  case False
  have "rev (group_rev loc (rev (nat_to_string (nat n)))) \<noteq> [] \<and> hd (rev (group_rev loc (rev (nat_to_string (nat n))))) \<noteq> CHR ''-''"
    using last_group_rev [of "rev (nat_to_string (nat n))" loc] nat_to_string_nonempty [of "nat n"]
      hd_nat_to_string_digit [of "nat n"] by (auto simp: hd_rev last_rev is_digit_def)
  with False show ?thesis by (simp add: parse_locale_def js_toLocaleString_def rev_filter [symmetric] digits_value_nat_to_string)
qed

end
