(* ===== verification/Charts.thy ===== *)
theory Charts
  imports Locale_Format
begin

text \<open>
  The dashboard widgets of \<open>src/components/dashboard/\<close>: the pie chart
  \<open>DebitComposition\<close> (its total), the line chart \<open>DebitReductionChart\<close> (its period
  selector, the data enrichment, the custom tooltip with the change against the previous
  point, the axis tick formatter) and the static \<open>StatsCards\<close>. Numbers are JavaScript
  numbers holding integers here, modelled as \<open>int\<close>, formatted by the functions of theory
  \<open>Locale_Format\<close>, the runtime's locale being an input. Styling is kept only where a
  class name carries meaning.
\<close>

subsection \<open>DebitComposition.tsx\<close>

record slice =
  sl_name :: js_string
  sl_value :: int
  sl_color :: js_string

definition composition_data :: "slice list" where
  "composition_data =
     [\<lparr>sl_name = ''Personal Loan'', sl_value = 350000, sl_color = ''#14B8A6''\<rparr>,
      \<lparr>sl_name = ''Car Loan'', sl_value = 280000, sl_color = ''#3B82F6''\<rparr>,
      \<lparr>sl_name = ''Credit Card'', sl_value = 215000, sl_color = ''#A855F7''\<rparr>]"

definition composition_total :: "slice list \<Rightarrow> int" where
  "composition_total xs = foldl (\<lambda>sum item. sum + sl_value item) 0 xs"

text \<open>
  Line 77 does not hold the rupee sign: its bytes are \<open>C3 A2 E2 80 9A C2 B9\<close>, the UTF-8
  encoding of the three characters the sign's own bytes \<open>E2 82 B9\<close> read as Windows-1252,
  and the page renders them as they are.
\<close>

definition composition_currency :: js_string where
  "composition_currency = [CHR 0xC3, CHR 0xA2, CHR 0xE2, CHR 0x80, CHR 0x9A, CHR 0xC2, CHR 0xB9]"

definition composition_total_text :: "num_locale \<Rightarrow> js_string" where
  "composition_total_text loc = composition_currency @ js_toLocaleString loc (composition_total composition_data)"

subsection \<open>DebitReductionChart.tsx\<close>

record point =
  p_name :: js_string
  personal :: int
  car :: int
  credit :: int

definition mk_point :: "js_string \<Rightarrow> int \<Rightarrow> int \<Rightarrow> int \<Rightarrow> point" where
  "mk_point n p c r = \<lparr>p_name = n, personal = p, car = c, credit = r\<rparr>"

definition weekly :: "point list" where
  "weekly =
     [mk_point ''Mon'' 60000 250000 180000, mk_point ''Tue'' 82000 295000 210000,
      mk_point ''Wed'' 54000 240000 165000, mk_point ''Thu'' 96000 310000 225000,
      mk_point ''Fri'' 70000 270000 195000, mk_point ''Sat'' 115000 330000 245000,
      mk_point ''Sun'' 68000 260000 185000]"

definition monthly :: "point list" where
  "monthly =
     [mk_point ''Week 1'' 400000 300000 230000, mk_point ''Week 2'' 385000 292000 225000,
      mk_point ''Week 3'' 370000 288000 221000, mk_point ''Week 4'' 355000 283000 218000]"

definition yearly :: "point list" where
  "yearly =
     [mk_point ''Jan'' 600000 420000 260000, mk_point ''Feb'' 580000 410000 255000,
      mk_point ''Mar'' 560000 395000 250000, mk_point ''Apr'' 540000 380000 245000,
      mk_point ''May'' 520000 365000 240000, mk_point ''Jun'' 500000 350000 235000,
      mk_point ''Jul'' 480000 335000 230000, mk_point ''Aug'' 460000 320000 225000,
      mk_point ''Sep'' 440000 305000 222000, mk_point ''Oct'' 420000 295000 219000,
      mk_point ''Nov'' 400000 285000 216000, mk_point ''Dec'' 380000 275000 215000]"

datatype period = Weekly | Monthly | Yearly

definition period_init :: period where
  "period_init = Monthly"

text \<open>Lines 137--141.\<close>

definition chart_data :: "period \<Rightarrow> point list" where
  "chart_data p = (if p = Weekly then weekly else if p = Yearly then yearly else monthly)"

text \<open>Line 144: each point with its index and the whole series (\<open>__idx\<close>, \<open>payloadsRef\<close>).\<close>

type_synonym enriched = "point \<times> nat \<times> point list"

fun enrich_from :: "nat \<Rightarrow> point list \<Rightarrow> point list \<Rightarrow> enriched list" where
  "enrich_from i ref [] = []"
| "enrich_from i ref (d # ds) = (d, i, ref) # enrich_from (Suc i) ref ds"

definition enrich :: "point list \<Rightarrow> enriched list" where
  "enrich xs = enrich_from 0 xs xs"

datatype series = SPersonal | SCar | SCredit

fun series_value :: "series \<Rightarrow> point \<Rightarrow> int" where
  "series_value SPersonal d = personal d"
| "series_value SCar d = car d"
| "series_value SCredit d = credit d"

fun series_name :: "series \<Rightarrow> js_string" where
  "series_name SPersonal = ''Personal Loan''"
| "series_name SCar = ''Car Loan''"
| "series_name SCredit = ''Credit Card''"

text \<open>Lines 66--68.\<close>

definition formatRupee :: "num_locale \<Rightarrow> int \<Rightarrow> js_string" where
  "formatRupee loc v = rupee @ js_toLocaleString loc v"

text \<open>
  Lines 94--105: the change against the previous point of the same series, as its text and
  whether it is an increase. Reading \<open>all[idx - 1]\<close> out of range gives \<open>undefined\<close>,
  and indexing it throws: that is \<open>None\<close>.
\<close>

definition tooltip_delta :: "num_locale \<Rightarrow> series \<Rightarrow> enriched \<Rightarrow> (js_string \<times> bool) option" where
  "tooltip_delta loc k e =
     (case e of (d, idx, all) \<Rightarrow>
        if 0 < idx then
          (if idx - 1 < length all then
             (let delta = series_value k d - series_value k (all ! (idx - 1)) in
              Some ((if 0 < delta then ''+'' else ''-'') @ rupee @ js_toLocaleString loc \<bar>delta\<bar>, 0 < delta))
           else None)
        else Some ([], False))"

record tooltip_row =
  row_name :: js_string
  row_value :: js_string
  row_delta :: js_string
  row_delta_class :: js_string

text \<open>Lines 90--127, one row of the tooltip.\<close>

definition tooltip_row :: "num_locale \<Rightarrow> bool \<Rightarrow> series \<Rightarrow> enriched \<Rightarrow> tooltip_row option" where
  "tooltip_row loc isDark k e =
     (case tooltip_delta loc k e of
        None \<Rightarrow> None
      | Some (txt, inc) \<Rightarrow>
          Some \<lparr>row_name = series_name k, row_value = formatRupee loc (series_value k (fst e)),
                row_delta = txt,
                row_delta_class = (if txt \<noteq> [] then (if inc then ''text-red-400'' else ''text-emerald-400'')
                                   else if isDark then ''text-slate-300'' else ''text-gray-500'')\<rparr>)"

text \<open>Lines 71--132: nothing unless active with a non-empty payload; a row per series.\<close>

definition custom_tooltip ::
  "num_locale \<Rightarrow> bool \<Rightarrow> bool \<Rightarrow> (series \<times> enriched) list \<Rightarrow> tooltip_row list option option" where
  "custom_tooltip loc isDark active payload =
     (if \<not> active \<or> payload = [] then Some None
      else (let rows = map (\<lambda>(k, e). tooltip_row loc isDark k e) payload in
            if None \<in> set rows then None else Some (Some (map the rows))))"

text \<open>Line 178.\<close>

definition tick_label :: "real \<Rightarrow> js_string" where
  "tick_label v = rupee @ int_to_string (js_round (v / 1000)) @ ''k''"

subsection \<open>StatsCards.tsx\<close>

record stat_card =
  st_title :: js_string
  st_value :: js_string
  st_change :: "js_string option"
  st_subtext :: "js_string option"

definition stats :: "stat_card list" where
  "stats =
     [\<lparr>st_title = ''Total Debt'', st_value = rupee @ ''8,45,000'', st_change = Some ''-5.2%'', st_subtext = None\<rparr>,
      \<lparr>st_title = ''Monthly EMI'', st_value = rupee @ ''39,200'', st_change = Some ''+2.1%'', st_subtext = None\<rparr>,
      \<lparr>st_title = ''AI Savings'', st_value = rupee @ ''3,500'', st_change = None, st_subtext = Some ''per month''\<rparr>,
      \<lparr>st_title = ''Credit Score'', st_value = ''752'', st_change = Some ''+12 points'', st_subtext = None\<rparr>]"

text \<open>Lines 64--94: the texts a card shows; \<open>stat.change && ...\<close> renders a non-empty string only.\<close>

definition opt_text :: "js_string option \<Rightarrow> js_string list" where
  "opt_text t = (case t of Some x \<Rightarrow> (if x = [] then [] else [x]) | None \<Rightarrow> [])"

definition stat_card_lines :: "stat_card \<Rightarrow> js_string list" where
  "stat_card_lines st = [st_title st, st_value st] @ opt_text (st_change st) @ opt_text (st_subtext st)"

text \<open>Reading the change text of the tooltip back as a number: its sign, then the amount after the rupee sign.\<close>

definition read_delta :: "js_string \<Rightarrow> int" where
  "read_delta txt = (if hd txt = CHR ''+'' then 1 else -1) * parse_locale (drop (Suc (length rupee)) txt)"

subsection \<open>What the charts show\<close>

text \<open>DebitComposition lines 54--59 and 83--93: one pie cell and one legend entry per slice.\<close>

definition pie_cells :: "js_string list" where
  "pie_cells = map sl_color composition_data"

definition legend_items :: "(js_string \<times> js_string) list" where
  "legend_items = map (\<lambda>item. (sl_name item, sl_color item)) composition_data"

text \<open>DebitComposition lines 30--63: the pie \<open>renderChart\<close> builds, and its cells.\<close>

record pie_config =
  pc_data :: "slice list"
  pc_cx :: js_string
  pc_cy :: js_string
  pc_innerRadius :: nat
  pc_outerRadius :: nat
  pc_paddingAngle :: nat
  pc_dataKey :: js_string

definition renderChart :: "pie_config \<times> js_string list" where
  "renderChart =
     (\<lparr>pc_data = composition_data, pc_cx = ''50%'', pc_cy = ''50%'', pc_innerRadius = 60,
       pc_outerRadius = 100, pc_paddingAngle = 5, pc_dataKey = ''value''\<rparr>, pie_cells)"

text \<open>DebitComposition lines 65--96: the card, with the pie, the total label and the legend.\<close>

definition composition_view ::
  "num_locale \<Rightarrow> (pie_config \<times> js_string list) \<times> js_string \<times> (js_string \<times> js_string) list" where
  "composition_view loc = (renderChart, composition_total_text loc, legend_items)"

text \<open>DebitReductionChart lines 152--164: the items of the period select, value and label.\<close>

definition period_items :: "(period \<times> js_string \<times> js_string) list" where
  "period_items = [(Weekly, ''weekly'', ''Weekly''), (Monthly, ''monthly'', ''Monthly''), (Yearly, ''yearly'', ''Yearly'')]"

text \<open>
  Lines 135 and 152--155: the period is kept as the select's string, set by
  \<open>onValueChange\<close> with an unchecked cast; \<open>chartData\<close> (lines 137--141) reads
  \<open>weekly\<close> and \<open>yearly\<close> and takes every other value as \<open>monthly\<close>.
\<close>

definition select_period :: "js_string \<Rightarrow> period" where
  "select_period v = (if v = ''weekly'' then Weekly else if v = ''yearly'' then Yearly else Monthly)"

text \<open>Lines 186--212: the three lines, by data key, legend name and stroke colour.\<close>

fun series_key :: "series \<Rightarrow> js_string" where
  "series_key SPersonal = ''personal''"
| "series_key SCar = ''car''"
| "series_key SCredit = ''credit''"

fun series_stroke :: "series \<Rightarrow> js_string" where
  "series_stroke SPersonal = ''#14B8A6''"
| "series_stroke SCar = ''#3B82F6''"
| "series_stroke SCredit = ''#A855F7''"

definition chart_lines :: "(js_string \<times> js_string \<times> js_string) list" where
  "chart_lines = map (\<lambda>k. (series_key k, series_name k, series_stroke k)) [SPersonal, SCar, SCredit]"

text \<open>Lines 146--217: the chart drawn for the selected period, its data and its lines.\<close>

definition reduction_chart_view :: "period \<Rightarrow> enriched list \<times> (js_string \<times> js_string \<times> js_string) list" where
  "reduction_chart_view p = (enrich (chart_data p), chart_lines)"

subsection \<open>Lemmas\<close>

lemma enrich_from_nth: "i < length ds \<Longrightarrow> enrich_from k ref ds ! i = (ds ! i, k + i, ref)"
  by (induction ds arbitrary: i k) (auto simp: nth_Cons split: nat.splits)

lemma length_enrich_from [simp]: "length (enrich_from k ref ds) = length ds"
  by (induction ds arbitrary: k) simp_all

lemma set_enrich: "e \<in> set (enrich xs) \<longleftrightarrow> (\<exists>i < length xs. e = (xs ! i, i, xs))"
  by (auto simp: enrich_def in_set_conv_nth enrich_from_nth)

lemma tooltip_delta_enrich: "e \<in> set (enrich xs) \<Longrightarrow> tooltip_delta loc k e \<noteq> None"
  by (auto simp: set_enrich tooltip_delta_def Let_def)

lemma read_delta_Cons: "read_delta (c # rupee @ t) = (if c = CHR ''+'' then 1 else -1) * parse_locale t"
  by (simp add: read_delta_def)

lemma read_delta_text: "read_delta ((if 0 < d then ''+'' else ''-'') @ rupee @ js_toLocaleString loc \<bar>d\<bar>) = d"
proof (cases "0 < d")
  case True
  then have "read_delta (''+'' @ rupee @ js_toLocaleString loc \<bar>d\<bar>) = parse_locale (js_toLocaleString loc \<bar>d\<bar>)"
    by (simp only: append.simps read_delta_Cons) simp
  with True show ?thesis by (simp only: if_True parse_locale_toLocaleString)
next
  case False
  then have "read_delta (''-'' @ rupee @ js_toLocaleString loc \<bar>d\<bar>) = - parse_locale (js_toLocaleString loc \<bar>d\<bar>)"
    by (simp only: append.simps read_delta_Cons) simp
  with False show ?thesis by (simp only: if_False parse_locale_toLocaleString)
qed

lemma tooltip_delta_prev:
  "0 < i \<Longrightarrow> i - 1 < length all \<Longrightarrow>
   tooltip_delta loc k (d, i, all) =
     (let delta = series_value k d - series_value k (all ! (i - 1)) in
      Some ((if 0 < delta then ''+'' else ''-'') @ rupee @ js_toLocaleString loc \<bar>delta\<bar>, 0 < delta))"
  unfolding tooltip_delta_def by (simp only: prod.case if_True)

lemma enrich_nth: "i < length xs \<Longrightarrow> enrich xs ! i = (xs ! i, i, xs)"
  by (simp add: enrich_def enrich_from_nth)

lemma composition_total_text_mis_encoded:
  "composition_total_text EnIN = composition_currency @ ''8,45,000''
   \<and> st_value (stats ! 0) = rupee @ ''8,45,000'' \<and> composition_currency \<noteq> rupee"
  by (simp add: composition_total_text_def composition_total_def composition_data_def stats_def
      composition_currency_def rupee_def js_toLocaleString_def str_simps digit_char_def)

lemma select_period_items: "(p, v, l) \<in> set period_items \<Longrightarrow> select_period v = p"
  by (auto simp: period_items_def select_period_def)

subsection \<open>Properties of the charts\<close>

text \<open>
  C33: for every point of a chart series after the first, the tooltip shows a change text
  that reads back as the difference to the previous point of the same series, flagged as an
  increase exactly when the value went up.
\<close>

theorem tooltip_delta_reads_back:
  "i < length xs \<Longrightarrow> 0 < i \<Longrightarrow>
   \<exists>txt. tooltip_delta loc k (enrich xs ! i)
           = Some (txt, series_value k (xs ! (i - 1)) < series_value k (xs ! i))
     \<and> read_delta txt = series_value k (xs ! i) - series_value k (xs ! (i - 1))"
proof -
  let ?d = "series_value k (xs ! i) - series_value k (xs ! (i - 1))"
  let ?txt = "(if 0 < ?d then ''+'' else ''-'') @ rupee @ js_toLocaleString loc \<bar>?d\<bar>"
  assume i: "i < length xs" "0 < i"
  then have "i - 1 < length xs" by simp
  then have td: "tooltip_delta loc k (enrich xs ! i) = Some (?txt, 0 < ?d)"
    by (simp only: enrich_nth [OF i(1)] tooltip_delta_prev [OF i(2)] Let_def)
  have inc: "(0 < ?d) = (series_value k (xs ! (i - 1)) < series_value k (xs ! i))" by simp
  show ?thesis by (rule exI [of _ ?txt], rule conjI, simp only: td inc, rule read_delta_text)
qed

theorem tooltip_delta_reads_back_witness:
  "\<exists>txt. tooltip_delta EnUS SPersonal (enrich monthly ! 1) = Some (txt, False) \<and> read_delta txt = -15000"
  using tooltip_delta_reads_back [of 1 monthly EnUS SPersonal] by (simp add: monthly_def mk_point_def)

text \<open>
  C34: a point equal to the previous one gets the change text \<open>-\<close>, rupee sign, \<open>0\<close>
  in the colour of a decrease (the sign test of line 103 is \<open>delta > 0\<close>, so no change is
  shown as a fall).
\<close>

theorem tooltip_zero_change_shown_as_decrease:
  "i < length xs \<Longrightarrow> 0 < i \<Longrightarrow> series_value k (xs ! i) = series_value k (xs ! (i - 1)) \<Longrightarrow>
   tooltip_row loc isDark k (enrich xs ! i) =
     Some \<lparr>row_name = series_name k, row_value = formatRupee loc (series_value k (xs ! i)),
           row_delta = ''-'' @ rupee @ ''0'', row_delta_class = ''text-emerald-400''\<rparr>"
proof -
  assume i: "i < length xs" "0 < i" and eq: "series_value k (xs ! i) = series_value k (xs ! (i - 1))"
  from i have "i - 1 < length xs" by simp
  then have "tooltip_delta loc k (enrich xs ! i) = Some (''-'' @ rupee @ ''0'', False)"
    using eq by (cases loc) (simp_all add: enrich_nth [OF i(1)] tooltip_delta_prev [OF i(2)]
      js_toLocaleString_def nat_to_string.simps digit_char_def)
  then show ?thesis by (simp add: tooltip_row_def enrich_nth [OF i(1)])
qed

theorem tooltip_zero_change_shown_as_decrease_witness:
  "tooltip_row EnUS False SCar (enrich [mk_point ''Mon'' 5 7 9, mk_point ''Tue'' 6 7 8] ! 1) =
     Some \<lparr>row_name = ''Car Loan'', row_value = formatRupee EnUS 7,
           row_delta = ''-'' @ rupee @ ''0'', row_delta_class = ''text-emerald-400''\<rparr>"
  using tooltip_zero_change_shown_as_decrease [of 1 "[mk_point ''Mon'' 5 7 9, mk_point ''Tue'' 6 7 8]" SCar EnUS False]
  by (simp add: mk_point_def)

text \<open>
  C36: the custom tooltip never throws on the points the chart passes it: every payload entry
  drawn from the enriched data has its previous point in range.
\<close>

theorem custom_tooltip_total:
  "\<forall>(k, e) \<in> set payload. e \<in> set (enrich xs) \<Longrightarrow> custom_tooltip loc isDark active payload \<noteq> None"
proof -
  assume all: "\<forall>(k, e) \<in> set payload. e \<in> set (enrich xs)"
  have "None \<notin> set (map (\<lambda>(k, e). tooltip_row loc isDark k e) payload)"
  proof
    assume "None \<in> set (map (\<lambda>(k, e). tooltip_row loc isDark k e) payload)"
    then obtain k e where "(k, e) \<in> set payload" and "tooltip_row loc isDark k e = None" by auto
    with all show False by (auto simp: tooltip_row_def dest: tooltip_delta_enrich split: option.splits)
  qed
  then show ?thesis by (simp add: custom_tooltip_def Let_def)
qed

theorem custom_tooltip_total_witness:
  "custom_tooltip EnIN True True [(SCredit, enrich (chart_data Yearly) ! 3)] \<noteq> None"
  by (rule custom_tooltip_total [of _ "chart_data Yearly"]) (simp add: chart_data_def yearly_def enrich_def)

end
