(* ===== verification/Spec2Isabelle.thy ===== *)
theory Spec2Isabelle
  imports Auth_Properties Dashboard Settings_Properties Charts
begin

text \<open>
  A verification development of the Finomo front end (a Next.js application), as a shallow
  embedding of its TypeScript sources in Isabelle/HOL.

  \<^bold>\<open>The program.\<close> The login page \<open>src/app/login/page.tsx\<close> (\<open>AuthPage\<close>) offers
  phone sign-in by a one-time code, email sign-in and a two-phase registration; its forms are
  gated by three zod schemas, and a successful path calls \<open>login(user)\<close> of the session
  store and \<open>router.push("/")\<close>. The root page \<open>src/app/page.tsx\<close> (\<open>Dashboard\<close>) reads
  the store, redirects non-administrators and unauthenticated visitors and renders the
  dashboard widgets of \<open>src/components/dashboard/\<close>. The settings page
  \<open>src/app/settings/page.tsx\<close> edits the profile, linked bank accounts, password,
  notifications and language through four modal dialogs.

  \<^bold>\<open>Theories.\<close>
  \<^item> \<open>Prelude\<close>: the JavaScript runtime functions the sources call, on strings as
    character lists: \<open>toString\<close> of naturals (\<open>nat_to_string\<close>, with its inverse
    \<open>digits_value\<close>), \<open>trim\<close>, \<open>toLowerCase\<close>, \<open>replace(/\s+/g, "-")\<close>,
    \<open>slice(-n)\<close>; the simp collections \<open>str_simps\<close> and \<open>auth_simps\<close>.
  \<^item> \<open>Regex\<close>: regular expressions with Brzozowski derivatives; \<open>matches\<close> decides
    membership in \<open>lang\<close> (theorem \<open>matches_iff\<close>); bounded repetition \<open>rep_range\<close>.
  \<^item> \<open>Validators\<close>: \<open>phoneSchema\<close>, \<open>emailSchema\<close>, \<open>registerSchema\<close> (lines 24--41 of the
    login page) as functions to their lists of field errors, and \<open>zod_resolve\<close>, the
    resolver react-hook-form runs before a submit handler. zod's email check, library code,
    is modelled from its regular expression (\<open>zod_email\<close>).
  \<^item> \<open>Auth\<close>: the login page as a state machine. \<open>auth_state\<close> holds every \<open>useState\<close>
    of \<open>AuthPage\<close> and the three form values; \<open>handleSendOtp\<close>, \<open>handleVerifyOtp\<close>,
    \<open>handleResendOtp\<close>, \<open>onEmailSignIn\<close>, \<open>onRegister\<close> and the inline handlers are
    functions returning the new state and the list of \<open>effect\<close>s (\<open>Login\<close>, \<open>Push\<close>);
    \<open>enabled\<close> is the render: which controls exist in a state; \<open>auth_step\<close> dispatches an
    \<open>auth_event\<close>; \<open>reachable\<close> is the inductive set of states reachable from
    \<open>auth_init\<close>; \<open>auth_run\<close> runs an event list. \<open>Math.random()\<close> is an event argument,
    a real in \<open>[0, 1)\<close> (\<open>env_ok\<close>), and \<open>Date\<close> values are arguments of the registration.
    \<open>Auth\<close> also proves the page invariant \<open>auth_inv\<close> for every reachable state.
  \<^item> \<open>Auth_Properties\<close>: the properties of the login page and its sessions end to end.
  \<^item> \<open>Dashboard\<close>: the session store (outside \<open>src/\<close>, modelled from the interface of
    section 6 of the spec: \<open>login\<close> is the only operation the pages call),
    the redirect effect and the render of \<open>Dashboard\<close>, and \<open>apply_effects\<close>, which runs
    the login page's effects against the store and the router (modelled from the same
    interface).
  \<^item> \<open>Settings\<close>: \<open>settings_state\<close> (lines 91--134), the handlers (lines 137--266) and
    the inline handlers of the controls and of \<open>Modal\<close>; \<open>settings_enabled\<close> (the controls on
    screen: a modal's backdrop stops only the pointer, so the page's controls stay reachable
    from the keyboard behind an open dialog); \<open>settings_step\<close> dispatches an event to the page's controls
    (\<open>page_step\<close>, which hands it to the card that renders the control: profile, accounts,
    security, notifications, preferences, danger zone) or to the four dialogs
    (\<open>modal_step\<close>, lines 756--886, with \<open>dialogs_shown\<close> the dialogs on screen);
    \<open>settings_reachable\<close> and \<open>settings_run\<close>, with the invariant \<open>settings_inv\<close>.
    What the page shows (avatar, save button, account rows) are functions of the state; the theme switches are calls of
    the theme store, effects \<open>ToggleDark\<close> and \<open>SetTheme\<close>. The 900 ms timer of
    the profile save is an event of its own (\<open>SSaveTimer\<close>) with the count of pending
    timers in the state; toasts and \<open>alert\<close> are effects.
  \<^item> \<open>Settings_Properties\<close>: the properties of the settings page, among them the
    abstract account contract \<open>accounts_spec\<close> (an inductive relation) the page refines.
  \<^item> \<open>Locale_Format\<close>: \<open>toLocaleString()\<close> of integers with the US and the Indian digit
    grouping (runtime behaviour, only these two locales), \<open>String(n)\<close>, \<open>Math.round\<close>,
    and reading a formatted number back, which the tooltip properties use.
  \<^item> \<open>Charts\<close>: \<open>DebitComposition\<close> (the total, with the mis-encoded currency
    prefix its line 77 holds), \<open>DebitReductionChart\<close> (period,
    selection with its unchecked cast, enrichment, tooltip, tick formatter, the drawn chart)
    and \<open>StatsCards\<close>.

  \<^bold>\<open>What is proved.\<close> The invariant of the login page (\<open>auth_inv\<close>: a code is outstanding exactly
  at code entry and is six digits, the typed code has at most six characters, the number
  being verified in sign-up is the one the registration form carries, and the registration
  form holds a number that passes the phone schema) holds in every reachable state; every
  \<open>login\<close> call is one of the three authenticated paths; the phone schema accepts exactly
  ``optional \<open>+\<close>, 10 to 15 digits, the first not zero''; the code generator's range; the
  behaviour of verify, resend, mode switches and the email and registration errors on every
  branch; the phone sign-in and the registration sessions end to end through
  \<open>auth_run\<close>, for every number, draw and form. The dashboard's redirect and render agree,
  and a login lands on the administrator's dashboard (below). The settings invariant (account
  numbers of at most four digits, a running save has a pending timer, the language is an
  option of the select); the page refines the abstract account contract (accounts change only by the add
  and remove dialogs); the password dialog's acceptance condition and that a failed update keeps
  what was typed; the photo size limit; preview URLs are revoked when dropped;
  add-then-remove of an account; notification toggles; every pending save finishes when its
  timers fire; the account initials. The tooltip's change reads back as the difference of
  consecutive points (through the round trip of the number formatting), an unchanged value
  is shown as a decrease, and the tooltip never reads out of range. Several theorems are existential: they exhibit a
  reachable state that shows a behaviour the spec or the code's intent does not expect
  (a repeated code on resend, a stale step after switching to email sign-in, a double profile
  save, a blank bank name, two accounts sharing an id that one removal deletes together, two
  dialogs on screen at once).

  \<^bold>\<open>Bounds and inputs.\<close> No loop of the sources is unbounded: the only recursion is on
  strings and lists, structural or by a length measure (\<open>replace_ws_runs\<close>), so every
  function of the model is total and no fuel is needed. Random draws, clock values and
  object URLs are inputs of the events that consume them, so each claim holds for every
  value the runtime may return. Numbers are integers or reals, not IEEE doubles: the
  amounts of the sources are integers far below \<open>2^53\<close>, and the one division
  (\<open>value / 1000\<close> of the tick formatter) is exact at the halves where rounding matters.

  \<^bold>\<open>Not modelled.\<close> The state of the theme store: it lies outside \<open>src/\<close> and the
  spec does not describe it, so only the page's calls to it are modelled. Styling, layout and
  icons; \<open>console.log\<close>; the drawing done by recharts; the timers that only remove toast
  elements; react-hook-form's re-validation while typing (only the submit path changes the
  page's state); imports, type declarations and closing markup, which hold no behaviour; and
  \<open>StarStudentsTable\<close> and \<open>Layout\<close>, which the pages import but the repository does
  not contain. What remains of the sources is modelled.
\<close>

text \<open>
  C31: a login on the login page hands an administrator to the store and pushes the root
  path, and the dashboard then renders that administrator's dashboard, greeting the user by
  name, without a redirect.
\<close>

theorem login_reaches_admin_dashboard:
  "auth_step s e = (t, effs) \<Longrightarrow> Login u \<in> set effs \<Longrightarrow>
   apply_effects st effs = (store_login u st, [''/''])
   \<and> dashboard_redirect (store_login u st) = None \<and> dashboard_view (store_login u st) = AdminView (u_name u)"
  by (drule (1) auth_step_Login_effects) simp

theorem login_reaches_admin_dashboard_witness:
  "let s = auth_init\<lparr>step := EnterOtp, generatedOtp := ''482913'', otp := ''482913'',
             otpSuccess := '' (Demo OTP: 482913)'', phoneForm := ''+12345678901''\<rparr>
   in apply_effects store_init (snd (auth_step s VerifyOtp)) = (store_login mockAdmin_user store_init, [''/''])
      \<and> dashboard_view (store_login mockAdmin_user store_init) = AdminView ''Ramesh''"
proof -
  let ?s = "auth_init\<lparr>step := EnterOtp, generatedOtp := ''482913'', otp := ''482913'',
             otpSuccess := '' (Demo OTP: 482913)'', phoneForm := ''+12345678901''\<rparr>"
  have "Login mockAdmin_user \<in> set (snd (auth_step ?s VerifyOtp))" by (simp add: auth_eval)
  from login_reaches_admin_dashboard [OF prod.collapse [symmetric] this, of store_init]
  show ?thesis by (simp add: mockAdmin_user_def)
qed

end
